theory Spec2Isabelle
  imports Complex_Main
begin

section \<open>Data model\<close>

text \<open>
  The unit under verification is \<^verbatim>\<open>transform_data\<close> of \<^verbatim>\<open>transform.py\<close>. It is
  written against pandas, so the embedding has two layers: a small model of the pandas
  operations the function calls, and the function itself, translated block by block.

  Modelling decisions, fixed here once:
  \<^item> A cell is a missing value (\<open>None\<close>, \<open>NaN\<close> and \<open>NaT\<close> are one value, as
    pandas' \<open>isna\<close>, \<open>fillna\<close> and \<open>duplicated\<close> treat them), a number, a string or a
    timestamp. A number is an exact rational or one of the two infinities of
    \<open>float64\<close>; the rounding of \<open>float64\<close> arithmetic is not modelled. The cast to
    \<open>int64\<close> of line 76 is modelled with its failure and with the range of \<open>int64\<close>.
    Timestamps are timezone-naive nanoseconds since the epoch.
  \<^item> A table is its list of row labels and its ordered list of named columns. Column
    names are ASCII strings; looking a name up takes the first column of that name.
  \<^item> What pandas decides by parsing text or by calendar arithmetic is not part of the
    repository. It is a parameter \<open>lib\<close> of the model, so that every general theorem
    holds for whatever the library answers.
\<close>

datatype cell = NA | Num rat | PosInf | NegInf | Str string | Time int

datatype error =
    KeyError string
  | IndexError
  | AttributeError
  | TypeError
  | ValueError
  | OutOfBoundsDatetime
  | MergeError
  | IntCastingNaNError

record dataframe =
  index :: "int list"
  columns :: "(string \<times> cell list) list"

text \<open>Sequencing of calls that may raise: the first exception ends the run.\<close>

definition bind :: "error + 'a \<Rightarrow> ('a \<Rightarrow> error + 'b) \<Rightarrow> error + 'b" where
  "bind m f = (case m of Inl e \<Rightarrow> Inl e | Inr x \<Rightarrow> f x)"

subsection \<open>The pandas operations used by the transformation\<close>

text \<open>\<^verbatim>\<open>pd.DataFrame()\<close>: no rows, no columns.\<close>

definition pd_DataFrame :: dataframe where
  "pd_DataFrame = \<lparr>index = [], columns = []\<rparr>"

text \<open>The default \<^verbatim>\<open>RangeIndex\<close> of a freshly built table: labels \<open>0, 1, ..., n - 1\<close>.\<close>

definition RangeIndex :: "nat \<Rightarrow> int list" where
  "RangeIndex n = map int [0..<n]"

definition nrows :: "dataframe \<Rightarrow> nat" where
  "nrows df = length (index df)"

definition column_names :: "dataframe \<Rightarrow> string list" where
  "column_names df = map fst (columns df)"

text \<open>\<^verbatim>\<open>df.empty\<close> holds as soon as one axis has length zero.\<close>

definition df_empty :: "dataframe \<Rightarrow> bool" where
  "df_empty df = (index df = [] \<or> columns df = [])"

text \<open>Every column of a table has one value per row label.\<close>

definition wf :: "dataframe \<Rightarrow> bool" where
  "wf df = list_all (\<lambda>(c, vs). length vs = nrows df) (columns df)"

text \<open>\<^verbatim>\<open>df[c]\<close>: the column, or \<open>KeyError\<close>.\<close>

definition getitem :: "dataframe \<Rightarrow> string \<Rightarrow> error + cell list" where
  "getitem df c = (case map_of (columns df) c of None \<Rightarrow> Inl (KeyError c) | Some vs \<Rightarrow> Inr vs)"

text \<open>\<^verbatim>\<open>df[c] = values\<close>: overwrite the column in its place, or append a new last column.\<close>

fun set_column :: "(string \<times> cell list) list \<Rightarrow> string \<Rightarrow> cell list \<Rightarrow> (string \<times> cell list) list" where
  "set_column [] c vs = [(c, vs)]"
| "set_column ((d, ws) # cols) c vs =
     (if d = c then (c, vs) # cols else (d, ws) # set_column cols c vs)"

definition setitem :: "dataframe \<Rightarrow> string \<Rightarrow> cell list \<Rightarrow> dataframe" where
  "setitem df c vs = df\<lparr>columns := set_column (columns df) c vs\<rparr>"

text \<open>\<^verbatim>\<open>df[c] = scalar\<close>: the scalar is broadcast to every row.\<close>

definition setitem_scalar :: "dataframe \<Rightarrow> string \<Rightarrow> cell \<Rightarrow> dataframe" where
  "setitem_scalar df c v = setitem df c (replicate (nrows df) v)"

subsection \<open>Duplicates\<close>

text \<open>
  \<^verbatim>\<open>df.duplicated(subset=cols)\<close> flags a row when an earlier row has the same values in
  all columns of \<open>cols\<close> (missing values compare equal to each other);
  \<^verbatim>\<open>df.drop_duplicates(subset=cols, keep='first')\<close> keeps the rows that are not flagged,
  with their labels, in their order. A name of \<open>cols\<close> that is no column is a \<open>KeyError\<close>.
\<close>

fun getitems :: "dataframe \<Rightarrow> string list \<Rightarrow> error + cell list list" where
  "getitems df [] = Inr []"
| "getitems df (c # cs) =
     bind (getitem df c) (\<lambda>vs. bind (getitems df cs) (\<lambda>vss. Inr (vs # vss)))"

definition key_rows :: "nat \<Rightarrow> cell list list \<Rightarrow> cell list list" where
  "key_rows n vss = map (\<lambda>i. map (\<lambda>vs. vs ! i) vss) [0..<n]"

fun flag_seen :: "'k list \<Rightarrow> 'k list \<Rightarrow> bool list" where
  "flag_seen seen [] = []"
| "flag_seen seen (k # ks) = (k \<in> set seen) # flag_seen (k # seen) ks"

definition duplicated :: "dataframe \<Rightarrow> string list \<Rightarrow> error + bool list" where
  "duplicated df cols =
     bind (getitems df cols) (\<lambda>vss. Inr (flag_seen [] (key_rows (nrows df) vss)))"

definition select :: "bool list \<Rightarrow> 'a list \<Rightarrow> 'a list" where
  "select keep xs = map snd (filter fst (zip keep xs))"

definition select_rows :: "bool list \<Rightarrow> dataframe \<Rightarrow> dataframe" where
  "select_rows keep df =
     \<lparr>index = select keep (index df),
      columns = map (\<lambda>(c, vs). (c, select keep vs)) (columns df)\<rparr>"

text \<open>\<^verbatim>\<open>df.iloc[positions]\<close>: the rows at the given positions, in the given order.\<close>

definition take_rows :: "dataframe \<Rightarrow> nat list \<Rightarrow> dataframe" where
  "take_rows df ps =
     \<lparr>index = map ((!) (index df)) ps,
      columns = map (\<lambda>(c, vs). (c, map ((!) vs) ps)) (columns df)\<rparr>"

definition drop_duplicates :: "dataframe \<Rightarrow> string list \<Rightarrow> error + dataframe" where
  "drop_duplicates df cols =
     bind (duplicated df cols) (\<lambda>dup. Inr (select_rows (map Not dup) df))"

subsection \<open>Column names\<close>

text \<open>\<^verbatim>\<open>col.lower().replace(' ', '_')\<close> on an ASCII name.\<close>

definition lower_char :: "char \<Rightarrow> char" where
  "lower_char c =
     (case map_of (zip ''ABCDEFGHIJKLMNOPQRSTUVWXYZ'' ''abcdefghijklmnopqrstuvwxyz'') c of
        Some d \<Rightarrow> d
      | None \<Rightarrow> c)"

definition standard_name :: "string \<Rightarrow> string" where
  "standard_name col = map (\<lambda>c. if c = CHR '' '' then CHR ''_'' else c) (map lower_char col)"

text \<open>\<^verbatim>\<open>df.drop(columns=[c])\<close> and \<^verbatim>\<open>df.rename(columns=d)\<close>.\<close>

definition drop_column :: "dataframe \<Rightarrow> string \<Rightarrow> dataframe" where
  "drop_column df c = df\<lparr>columns := filter (\<lambda>(d, vs). d \<noteq> c) (columns df)\<rparr>"

definition rename_columns :: "dataframe \<Rightarrow> (string \<times> string) list \<Rightarrow> dataframe" where
  "rename_columns df d =
     df\<lparr>columns :=
       map (\<lambda>(c, vs). (case map_of d c of None \<Rightarrow> c | Some c' \<Rightarrow> c', vs)) (columns df)\<rparr>"

subsection \<open>Building a table from a list of dicts\<close>

text \<open>
  A Python dict with string keys is an association list. \<^verbatim>\<open>pd.DataFrame(list_of_dicts)\<close>
  has one row per dict under the default index, one column per key in order of first
  appearance, and a missing value where a dict lacks the key.
\<close>

type_synonym pydict = "(string \<times> cell) list"

definition dict_get :: "pydict \<Rightarrow> string \<Rightarrow> cell" where
  "dict_get d k = (case map_of d k of None \<Rightarrow> NA | Some v \<Rightarrow> v)"

definition first_seen :: "'a list \<Rightarrow> 'a list" where
  "first_seen xs = rev (remdups (rev xs))"

definition DataFrame_records :: "pydict list \<Rightarrow> dataframe" where
  "DataFrame_records ds =
     \<lparr>index = RangeIndex (length ds),
      columns = map (\<lambda>c. (c, map (\<lambda>d. dict_get d c) ds)) (first_seen (concat (map (map fst) ds)))\<rparr>"

subsection \<open>What the library decides\<close>

text \<open>
  The answers of pandas that depend on parsing text or on the calendar:
  \<^item> \<open>parse_numeric\<close>: \<^verbatim>\<open>pd.to_numeric(errors='coerce')\<close> on one value that is neither
    missing nor a number; the answer is a \<open>float64\<close>: \<open>NaN\<close> where the value does not
    parse, a finite number, or an infinity (pandas reads \<^verbatim>\<open>'inf'\<close> as one);
  \<^item> \<open>parse_datetime\<close>: \<^verbatim>\<open>pd.to_datetime(errors='coerce')\<close> on the value at a position
    of a column (pandas may infer one format for the whole column); \<open>None\<close> is \<open>NaT\<close>;
  \<^item> \<open>epoch_seconds\<close>: \<^verbatim>\<open>pd.to_datetime(x, unit='s')\<close> on one value that is not missing,
    which raises on what it cannot convert;
  \<^item> \<open>mean_non_numeric\<close>: \<^verbatim>\<open>Series.mean()\<close> of a column that holds text, timestamps
    or infinities;
  \<^item> \<open>int64_overflow\<close>: the \<open>int64\<close> that the cast of \<^verbatim>\<open>.astype(int)\<close> gives for a finite
    number whose integer part is outside the range of \<open>int64\<close> (it depends on the
    platform and on the type of the column);
  \<^item> \<open>dt_month\<close>, \<open>dt_day_name\<close>: \<^verbatim>\<open>.dt.month\<close> and \<^verbatim>\<open>.dt.day_name()\<close> of a timestamp.
\<close>

datatype float64 = NaN | Finite rat | Infinity | MinusInfinity

record pandas =
  parse_numeric :: "cell \<Rightarrow> float64"
  parse_datetime :: "cell list \<Rightarrow> nat \<Rightarrow> int option"
  epoch_seconds :: "cell \<Rightarrow> error + int option"
  mean_non_numeric :: "cell list \<Rightarrow> error + cell"
  int64_overflow :: "rat \<Rightarrow> int"
  dt_month :: "int \<Rightarrow> int"
  dt_day_name :: "int \<Rightarrow> string"

definition timestamp :: "int option \<Rightarrow> cell" where
  "timestamp t = (case t of None \<Rightarrow> NA | Some n \<Rightarrow> Time n)"

definition number :: "float64 \<Rightarrow> cell" where
  "number x =
     (case x of NaN \<Rightarrow> NA | Finite q \<Rightarrow> Num q | Infinity \<Rightarrow> PosInf | MinusInfinity \<Rightarrow> NegInf)"

text \<open>\<^verbatim>\<open>pd.to_numeric(column, errors='coerce')\<close>, value by value.\<close>

definition to_numeric_coerce :: "pandas \<Rightarrow> cell \<Rightarrow> float64" where
  "to_numeric_coerce lib v =
     (case v of
        NA \<Rightarrow> NaN
      | Num q \<Rightarrow> Finite q
      | PosInf \<Rightarrow> Infinity
      | NegInf \<Rightarrow> MinusInfinity
      | _ \<Rightarrow> parse_numeric lib v)"

text \<open>\<^verbatim>\<open>pd.to_datetime(column, errors='coerce')\<close>.\<close>

definition to_datetime_coerce :: "pandas \<Rightarrow> cell list \<Rightarrow> cell list" where
  "to_datetime_coerce lib vs =
     map (\<lambda>i. case vs ! i of
                 NA \<Rightarrow> NA
               | Time t \<Rightarrow> Time t
               | _ \<Rightarrow> timestamp (parse_datetime lib vs i))
         [0..<length vs]"

text \<open>\<^verbatim>\<open>pd.to_datetime(x, unit='s')\<close> on a scalar.\<close>

definition to_datetime_seconds :: "pandas \<Rightarrow> cell \<Rightarrow> error + cell" where
  "to_datetime_seconds lib v =
     (case v of NA \<Rightarrow> Inr NA | _ \<Rightarrow> bind (epoch_seconds lib v) (\<lambda>t. Inr (timestamp t)))"

text \<open>
  \<^verbatim>\<open>.fillna(0).astype(int)\<close> on a column of \<open>float64\<close>. The cast raises
  \<open>IntCastingNaNError\<close> on a column that holds a value that is not finite. A finite
  number is truncated towards zero; outside the range of \<open>int64\<close> the cast does not
  raise and gives what the library gives.
\<close>

definition fillna_zero :: "float64 list \<Rightarrow> float64 list" where
  "fillna_zero xs = map (\<lambda>x. if x = NaN then Finite 0 else x) xs"

definition toward_zero :: "rat \<Rightarrow> int" where
  "toward_zero q = (if 0 \<le> q then \<lfloor>q\<rfloor> else \<lceil>q\<rceil>)"

definition int64_cast :: "pandas \<Rightarrow> rat \<Rightarrow> int" where
  "int64_cast lib q =
     (if - (2 ^ 63) \<le> toward_zero q \<and> toward_zero q < 2 ^ 63 then toward_zero q
      else int64_overflow lib q)"

definition int64_of :: "pandas \<Rightarrow> float64 \<Rightarrow> error + int" where
  "int64_of lib x =
     (case x of Finite q \<Rightarrow> Inr (int64_cast lib q) | _ \<Rightarrow> Inl IntCastingNaNError)"

fun astype_int :: "pandas \<Rightarrow> float64 list \<Rightarrow> error + cell list" where
  "astype_int lib [] = Inr []"
| "astype_int lib (x # xs) =
     bind (int64_of lib x) (\<lambda>k.
     bind (astype_int lib xs) (\<lambda>ks. Inr (Num (of_int k) # ks)))"

text \<open>\<^verbatim>\<open>Series.fillna(m)\<close>.\<close>

definition fillna :: "cell \<Rightarrow> cell list \<Rightarrow> cell list" where
  "fillna m vs = map (\<lambda>v. if v = NA then m else v) vs"

text \<open>
  \<^verbatim>\<open>Series.mean()\<close>: missing values are skipped; the mean of no value is missing.
\<close>

definition numbers :: "cell list \<Rightarrow> rat list" where
  "numbers vs = concat (map (\<lambda>v. case v of Num q \<Rightarrow> [q] | _ \<Rightarrow> []) vs)"

definition numeric :: "cell \<Rightarrow> bool" where
  "numeric v = (case v of NA \<Rightarrow> True | Num q \<Rightarrow> True | _ \<Rightarrow> False)"

definition mean :: "pandas \<Rightarrow> cell list \<Rightarrow> error + cell" where
  "mean lib vs =
     (if list_all numeric vs then
        (case numbers vs of
           [] \<Rightarrow> Inr NA
         | q # qs \<Rightarrow> Inr (Num (sum_list (q # qs) / of_nat (length (q # qs)))))
      else mean_non_numeric lib vs)"

text \<open>
  \<^verbatim>\<open>Series.str.replace('\<pounds>', '')\<close>. The accessor \<^verbatim>\<open>.str\<close> raises \<open>AttributeError\<close> on a
  column that holds values but no string; on the other columns a value that is not a
  string becomes missing. The glyph is the two bytes of its UTF-8 encoding.
\<close>

fun strip_pound :: "string \<Rightarrow> string" where
  "strip_pound (a # b # s) =
     (if a = CHR 0xC2 \<and> b = CHR 0xA3 then strip_pound s else a # strip_pound (b # s))"
| "strip_pound s = s"

definition is_text :: "cell \<Rightarrow> bool" where
  "is_text v = (case v of Str s \<Rightarrow> True | _ \<Rightarrow> False)"

definition str_replace_pound :: "cell list \<Rightarrow> error + cell list" where
  "str_replace_pound vs =
     (if list_ex is_text vs \<or> list_all (\<lambda>v. v = NA) vs then
        Inr (map (\<lambda>v. case v of Str s \<Rightarrow> Str (strip_pound s) | _ \<Rightarrow> NA) vs)
      else Inl AttributeError)"

text \<open>\<^verbatim>\<open>Series.iloc[0]\<close>.\<close>

definition iloc0 :: "cell list \<Rightarrow> error + cell" where
  "iloc0 vs = (case vs of [] \<Rightarrow> Inl IndexError | v # _ \<Rightarrow> Inr v)"

subsection \<open>Left join on the row labels\<close>

text \<open>
  \<^verbatim>\<open>pd.merge(left, right, how='left', left_index=True, right_index=True)\<close> for a
  right table with distinct labels: the result has the rows and labels of the left
  table, in their order, and the columns of both; a left row gets the values of the
  right row that carries the same label, and missing values when there is none. A
  name that both tables have is suffixed \<open>_x\<close> on the left and \<open>_y\<close> on the right;
  a duplicate name that the suffixes create is a \<open>MergeError\<close> (pandas 2).
\<close>

definition suffixed :: "string \<Rightarrow> string list \<Rightarrow> string list \<Rightarrow> string list" where
  "suffixed sfx overlap names = map (\<lambda>c. if c \<in> set overlap then c @ sfx else c) names"

definition new_duplicates :: "string list \<Rightarrow> string list \<Rightarrow> bool" where
  "new_duplicates old new =
     list_ex id (map2 (\<lambda>a b. a \<and> \<not> b) (flag_seen [] new) (flag_seen [] old))"

definition at_label :: "int list \<Rightarrow> cell list \<Rightarrow> int \<Rightarrow> cell" where
  "at_label idx vs k = (case map_of (zip idx vs) k of None \<Rightarrow> NA | Some v \<Rightarrow> v)"

definition overlap :: "dataframe \<Rightarrow> dataframe \<Rightarrow> string list" where
  "overlap left right = filter (\<lambda>c. c \<in> set (column_names right)) (column_names left)"

definition left_names :: "dataframe \<Rightarrow> dataframe \<Rightarrow> string list" where
  "left_names left right = suffixed ''_x'' (overlap left right) (column_names left)"

definition right_names :: "dataframe \<Rightarrow> dataframe \<Rightarrow> string list" where
  "right_names left right = suffixed ''_y'' (overlap left right) (column_names right)"

definition suffix_clash :: "dataframe \<Rightarrow> dataframe \<Rightarrow> bool" where
  "suffix_clash left right =
     (new_duplicates (column_names left) (left_names left right) \<or>
      new_duplicates (column_names right) (right_names left right))"

definition merge_left_index :: "dataframe \<Rightarrow> dataframe \<Rightarrow> error + dataframe" where
  "merge_left_index left right =
     (if suffix_clash left right then Inl MergeError
      else Inr \<lparr>index = index left,
                columns =
                  zip (left_names left right) (map snd (columns left)) @
                  zip (right_names left right)
                      (map (\<lambda>(c, vs). map (at_label (index right) vs) (index left))
                           (columns right))\<rparr>)"

section \<open>The transformation, block by block\<close>

text \<open>
  The function mutates the table that the variable \<^verbatim>\<open>sales_df\<close> refers to. That table is
  the caller's object, unless line 49 has rebound the variable to a fresh table. The
  heap holds the three objects the caller passed and the fresh table; a reference says
  which of the two tables \<^verbatim>\<open>sales_df\<close> names.
\<close>

text \<open>
  The weather argument is \<open>None\<close> (Python's \<open>None\<close> or an empty dict, both falsy) or a
  non-empty dict, of which the record holds the entries the function reads; a field is
  \<open>None\<close> when the dict lacks the key.
\<close>

record weather_data =
  name :: "cell option"
  main :: "pydict option"
  weather :: "pydict list option"
  wind :: "pydict option"
  dt :: "cell option"

datatype ref = Caller | Local

record heap =
  caller_weather :: "weather_data option"
  caller_sales :: "dataframe option"
  caller_listings :: "pydict list option"
  local_sales :: dataframe

definition deref :: "heap \<Rightarrow> ref \<Rightarrow> dataframe" where
  "deref h r =
     (case r of
        Caller \<Rightarrow> (case caller_sales h of None \<Rightarrow> pd_DataFrame | Some df \<Rightarrow> df)
      | Local \<Rightarrow> local_sales h)"

definition assign :: "ref \<Rightarrow> dataframe \<Rightarrow> heap \<Rightarrow> heap" where
  "assign r df h =
     (case r of Caller \<Rightarrow> h\<lparr>caller_sales := Some df\<rparr> | Local \<Rightarrow> h\<lparr>local_sales := df\<rparr>)"

subsection \<open>Conversion to tables (lines 30 to 49)\<close>

definition weather_columns :: "string list" where
  "weather_columns =
     [''city'', ''temperature_celsius'', ''weather_condition'', ''humidity_percent'',
      ''wind_speed_m_s'', ''report_timestamp'']"

definition weather_frame :: "pandas \<Rightarrow> weather_data option \<Rightarrow> error + dataframe" where
  "weather_frame lib weather_data =
     (case weather_data of
        None \<Rightarrow> Inr \<lparr>index = [], columns = map (\<lambda>c. (c, [])) weather_columns\<rparr>
      | Some w \<Rightarrow>
          let city = (case name w of None \<Rightarrow> NA | Some v \<Rightarrow> v);
              temperature = dict_get (case main w of None \<Rightarrow> [] | Some d \<Rightarrow> d) ''temp''
          in bind (case (case weather w of None \<Rightarrow> [[]] | Some l \<Rightarrow> l) of
                     [] \<Rightarrow> Inl IndexError
                   | d # _ \<Rightarrow> Inr (dict_get d ''description'')) (\<lambda>condition.
             let humidity = dict_get (case main w of None \<Rightarrow> [] | Some d \<Rightarrow> d) ''humidity'';
                 speed = dict_get (case wind w of None \<Rightarrow> [] | Some d \<Rightarrow> d) ''speed''
             in bind (to_datetime_seconds lib (case dt w of None \<Rightarrow> NA | Some v \<Rightarrow> v))
                  (\<lambda>report_timestamp.
                     Inr \<lparr>index = RangeIndex 1,
                          columns = zip weather_columns
                            [[city], [temperature], [condition], [humidity], [speed],
                             [report_timestamp]]\<rparr>)))"

definition listings_frame :: "pydict list option \<Rightarrow> dataframe" where
  "listings_frame scraped_data =
     (case scraped_data of
        None \<Rightarrow> pd_DataFrame
      | Some ds \<Rightarrow> if ds \<noteq> [] then DataFrame_records ds else pd_DataFrame)"

text \<open>Lines 48 and 49: an absent or empty sales table is replaced by a fresh empty one.\<close>

definition bind_sales :: "heap \<Rightarrow> ref \<times> heap" where
  "bind_sales h =
     (case caller_sales h of
        None \<Rightarrow> (Local, h\<lparr>local_sales := pd_DataFrame\<rparr>)
      | Some df \<Rightarrow>
          if df_empty df then (Local, h\<lparr>local_sales := pd_DataFrame\<rparr>) else (Caller, h))"

subsection \<open>Column names (lines 53 to 58)\<close>

definition standardize_columns :: "dataframe \<Rightarrow> dataframe" where
  "standardize_columns df =
     (if \<not> df_empty df
      then df\<lparr>columns := map (\<lambda>(c, vs). (standard_name c, vs)) (columns df)\<rparr>
      else df)"

subsection \<open>Missing amounts (lines 62 to 64)\<close>

definition fill_sale_amount :: "pandas \<Rightarrow> dataframe \<Rightarrow> error + dataframe" where
  "fill_sale_amount lib sales_df =
     (if \<not> df_empty sales_df \<and> ''sale_amount'' \<in> set (column_names sales_df) then
        bind (getitem sales_df ''sale_amount'') (\<lambda>amounts.
        bind (mean lib amounts) (\<lambda>mean_sale_amount.
          Inr (setitem sales_df ''sale_amount'' (fillna mean_sale_amount amounts))))
      else Inr sales_df)"

subsection \<open>Types (lines 68 to 76)\<close>

definition correct_listing_types :: "pandas \<Rightarrow> dataframe \<Rightarrow> error + dataframe" where
  "correct_listing_types lib scraped_df =
     (if \<not> df_empty scraped_df then
        bind (getitem scraped_df ''price'') (\<lambda>price.
        bind (str_replace_pound price) (\<lambda>price_cleaned.
          let scraped_df = setitem scraped_df ''book_price_gbp''
                             (map (\<lambda>v. number (to_numeric_coerce lib v)) price_cleaned)
          in bind (getitem scraped_df ''book_price_gbp'') (\<lambda>book_price_gbp.
          let scraped_df = setitem scraped_df ''book_price_gbp'' (fillna (Num 0) book_price_gbp);
              scraped_df = drop_column scraped_df ''price''
          in Inr (rename_columns scraped_df
                    [(''title'', ''book_title''), (''availability'', ''book_availability'')]))))
      else Inr scraped_df)"

definition correct_sales_types :: "pandas \<Rightarrow> dataframe \<Rightarrow> error + dataframe" where
  "correct_sales_types lib sales_df =
     (if \<not> df_empty sales_df then
        bind (getitem sales_df ''sale_date'') (\<lambda>sale_date.
          let sales_df = setitem sales_df ''sale_date'' (to_datetime_coerce lib sale_date)
          in bind (getitem sales_df ''product_id'') (\<lambda>product_id.
             bind (astype_int lib (fillna_zero (map (to_numeric_coerce lib) product_id)))
               (\<lambda>product_id. Inr (setitem sales_df ''product_id'' product_id))))
      else Inr sales_df)"

subsection \<open>Derived columns (lines 80 to 82)\<close>

definition month_of :: "pandas \<Rightarrow> cell \<Rightarrow> cell" where
  "month_of lib v = (case v of Time t \<Rightarrow> Num (of_int (dt_month lib t)) | _ \<Rightarrow> NA)"

definition day_name_of :: "pandas \<Rightarrow> cell \<Rightarrow> cell" where
  "day_name_of lib v = (case v of Time t \<Rightarrow> Str (dt_day_name lib t) | _ \<Rightarrow> NA)"

definition add_features :: "pandas \<Rightarrow> dataframe \<Rightarrow> error + dataframe" where
  "add_features lib sales_df =
     (if \<not> df_empty sales_df \<and> ''sale_date'' \<in> set (column_names sales_df) then
        bind (getitem sales_df ''sale_date'') (\<lambda>sale_date.
          let sales_df = setitem sales_df ''sale_month'' (map (month_of lib) sale_date)
          in bind (getitem sales_df ''sale_date'') (\<lambda>sale_date.
               Inr (setitem sales_df ''sale_day_name'' (map (day_name_of lib) sale_date))))
      else Inr sales_df)"

subsection \<open>The Source Normalizer (lines 30 to 82)\<close>

text \<open>
  The blocks above in the order of the source. Each block on the sales table writes its
  result through the reference, as the in-place assignments of the source do.
\<close>

definition normalizer ::
  "pandas \<Rightarrow> heap \<Rightarrow> error + (dataframe \<times> dataframe \<times> ref \<times> heap)" where
  "normalizer lib h0 =
     bind (weather_frame lib (caller_weather h0)) (\<lambda>weather_df.
     let scraped_df = listings_frame (caller_listings h0);
         (sales_df, h) = bind_sales h0;
         weather_df = standardize_columns weather_df;
         scraped_df = standardize_columns scraped_df;
         h = assign sales_df (standardize_columns (deref h sales_df)) h
     in bind (fill_sale_amount lib (deref h sales_df)) (\<lambda>filled.
        let h = assign sales_df filled h
        in bind (correct_listing_types lib scraped_df) (\<lambda>scraped_df.
           bind (correct_sales_types lib (deref h sales_df)) (\<lambda>typed.
           let h = assign sales_df typed h
           in bind (add_features lib (deref h sales_df)) (\<lambda>featured.
              let h = assign sales_df featured h
              in Inr (weather_df, scraped_df, sales_df, h))))))"

subsection \<open>The Broadcast Merger (lines 95 to 101)\<close>

fun broadcast_columns :: "dataframe \<Rightarrow> string list \<Rightarrow> dataframe \<Rightarrow> error + dataframe" where
  "broadcast_columns weather_df [] sales_df = Inr sales_df"
| "broadcast_columns weather_df (col # cols) sales_df =
     bind (getitem weather_df col) (\<lambda>series.
     bind (iloc0 series) (\<lambda>v.
       broadcast_columns weather_df cols (setitem_scalar sales_df col v)))"

definition broadcast_weather :: "dataframe \<Rightarrow> dataframe \<Rightarrow> error + dataframe" where
  "broadcast_weather weather_df sales_df =
     (if \<not> df_empty weather_df
      then broadcast_columns weather_df (column_names weather_df) sales_df
      else Inr sales_df)"

subsection \<open>The Positional Joiner (lines 104 to 117)\<close>

definition join_listings :: "dataframe \<Rightarrow> dataframe \<Rightarrow> error + dataframe" where
  "join_listings merged_df scraped_df =
     (if \<not> df_empty scraped_df then merge_left_index merged_df scraped_df
      else Inr merged_df)"

text \<open>
  The contract of the Positional Joiner in the words of the specification, for
  comparison with \<open>join_listings\<close>: row \<open>i\<close> of the sales table receives row \<open>i\<close> of the
  listings table, a sales row without a listing at its position gets missing book
  fields, and an empty listings table leaves the sales table as it is.
\<close>

definition positional_join :: "dataframe \<Rightarrow> dataframe \<Rightarrow> dataframe" where
  "positional_join sales listings =
     (if df_empty listings then sales
      else \<lparr>index = index sales,
            columns = columns sales @
              map (\<lambda>(c, vs). (c, map (\<lambda>i. if i < nrows listings then vs ! i else NA)
                                     [0..<nrows sales]))
                  (columns listings)\<rparr>)"

subsection \<open>Duplicate removal (lines 124 to 142)\<close>

definition subset_cols :: "string list" where
  "subset_cols = [''product_id'', ''sale_date'', ''sale_amount'']"

definition remove_duplicates :: "dataframe \<Rightarrow> error + dataframe" where
  "remove_duplicates final_df =
     bind (duplicated final_df subset_cols) (\<lambda>dup.
       let duplicates_before = length (filter id dup) in
       if duplicates_before > 0 then drop_duplicates final_df subset_cols
       else Inr final_df)"

text \<open>
  The composite key of the row at a position: its values in the three key columns
  (\<open>None\<close> for a column that the table lacks).
\<close>

definition row_key :: "dataframe \<Rightarrow> nat \<Rightarrow> cell option list" where
  "row_key df i =
     map (\<lambda>c. case getitem df c of Inl e \<Rightarrow> None | Inr vs \<Rightarrow> Some (vs ! i)) subset_cols"

subsection \<open>The function\<close>

text \<open>
  What a call gives back when it returns: the table it returns and the objects of the
  caller as the call leaves them.
\<close>

record outcome =
  returned :: dataframe
  weather_after :: "weather_data option"
  sales_after :: "dataframe option"
  listings_after :: "pydict list option"

definition leave :: "dataframe \<Rightarrow> heap \<Rightarrow> outcome" where
  "leave df h =
     \<lparr>returned = df, weather_after = caller_weather h, sales_after = caller_sales h,
      listings_after = caller_listings h\<rparr>"

definition transform_data ::
  "pandas \<Rightarrow> weather_data option \<Rightarrow> dataframe option \<Rightarrow> pydict list option \<Rightarrow> error + outcome" where
  "transform_data lib weather_data sales scraped_data =
     bind (normalizer lib
             \<lparr>caller_weather = weather_data, caller_sales = sales,
              caller_listings = scraped_data, local_sales = pd_DataFrame\<rparr>)
       (\<lambda>(weather_df, scraped_df, sales_df, h).
          if df_empty (deref h sales_df) then Inr (leave pd_DataFrame h)
          else
            bind (broadcast_weather weather_df (deref h sales_df)) (\<lambda>broadcast.
            let h = assign sales_df broadcast h;
                merged_df = deref h sales_df
            in bind (join_listings merged_df scraped_df) (\<lambda>final_df.
               bind (remove_duplicates final_df) (\<lambda>final_df_cleaned.
                 Inr (leave final_df_cleaned h)))))"

section \<open>A reference instance of the library\<close>

text \<open>
  The examples below need the library to answer. The instance \<open>plain\<close> reads what
  pandas reads without any doubt, and only that: a plain decimal numeral
  (\<open>51.77\<close>, \<open>-3\<close>) as a number, the words \<open>inf\<close> and \<open>-inf\<close> as the infinities, an
  ISO calendar date \<open>YYYY-MM-DD\<close> within the range of \<open>datetime64[ns]\<close> as midnight of
  that day, a whole number of seconds within that range as a time. Everything else it
  does not parse; the examples use only such text as pandas does not parse either
  (\<open>abc\<close>, \<open>x\<close>, \<open>not a date\<close>). The cast of a \<open>float64\<close> outside the range of \<open>int64\<close>
  gives the least \<open>int64\<close>, as on x86-64; the mean of a column with infinities is the
  infinity, or missing when both infinities occur.
\<close>

definition digit :: "char \<Rightarrow> nat option" where
  "digit c = map_of (zip ''0123456789'' [0..<10]) c"

fun digits :: "nat \<Rightarrow> string \<Rightarrow> nat option" where
  "digits acc [] = Some acc"
| "digits acc (c # s) = (case digit c of None \<Rightarrow> None | Some d \<Rightarrow> digits (10 * acc + d) s)"

definition natural :: "string \<Rightarrow> nat option" where
  "natural s = (if s = [] then None else digits 0 s)"

definition decimal :: "string \<Rightarrow> rat option" where
  "decimal s =
     (let whole = takeWhile (\<lambda>c. c \<noteq> CHR ''.'') s;
          rest = dropWhile (\<lambda>c. c \<noteq> CHR ''.'') s
      in case natural whole of
           None \<Rightarrow> None
         | Some a \<Rightarrow>
             if rest = [] then Some (of_nat a)
             else (case natural (tl rest) of
                     None \<Rightarrow> None
                   | Some b \<Rightarrow> Some (of_nat a + of_nat b / 10 ^ length (tl rest))))"

definition signed_decimal :: "string \<Rightarrow> rat option" where
  "signed_decimal s =
     (case s of
        [] \<Rightarrow> None
      | c # t \<Rightarrow> if c = CHR ''-'' then map_option uminus (decimal t) else decimal s)"

definition numeral_of :: "string \<Rightarrow> float64" where
  "numeral_of s =
     (if s = ''inf'' then Infinity
      else if s = ''-inf'' then MinusInfinity
      else (case signed_decimal s of None \<Rightarrow> NaN | Some q \<Rightarrow> Finite q))"

definition mean_with_infinities :: "cell list \<Rightarrow> error + cell" where
  "mean_with_infinities vs =
     (if list_ex (\<lambda>v. case v of Str s \<Rightarrow> True | Time t \<Rightarrow> True | _ \<Rightarrow> False) vs
      then Inl TypeError
      else if PosInf \<in> set vs \<and> NegInf \<in> set vs then Inr NA
      else if PosInf \<in> set vs then Inr PosInf
      else Inr NegInf)"

text \<open>Days since 1970-01-01 of a date of the proleptic Gregorian calendar, and back.\<close>

definition days_from_civil :: "int \<Rightarrow> int \<Rightarrow> int \<Rightarrow> int" where
  "days_from_civil y m d =
     (let y' = (if m \<le> 2 then y - 1 else y);
          era = y' div 400;
          yoe = y' - era * 400;
          doy = (153 * (if m > 2 then m - 3 else m + 9) + 2) div 5 + d - 1;
          doe = yoe * 365 + yoe div 4 - yoe div 100 + doy
      in era * 146097 + doe - 719468)"

definition month_from_days :: "int \<Rightarrow> int" where
  "month_from_days z =
     (let z' = z + 719468;
          era = z' div 146097;
          doe = z' - era * 146097;
          yoe = (doe - doe div 1460 + doe div 36524 - doe div 146096) div 365;
          doy = doe - (365 * yoe + yoe div 4 - yoe div 100);
          mp = (5 * doy + 2) div 153
      in if mp < 10 then mp + 3 else mp - 9)"

definition leap_year :: "int \<Rightarrow> bool" where
  "leap_year y = (y mod 4 = 0 \<and> (y mod 100 \<noteq> 0 \<or> y mod 400 = 0))"

definition days_in_month :: "int \<Rightarrow> int \<Rightarrow> int" where
  "days_in_month y m =
     (if m = 2 then (if leap_year y then 29 else 28)
      else if m = 4 \<or> m = 6 \<or> m = 9 \<or> m = 11 then 30 else 31)"

definition nanoseconds_per_day :: int where
  "nanoseconds_per_day = 86400 * 1000000000"

definition in_bounds :: "int \<Rightarrow> bool" where
  "in_bounds t = (- (2 ^ 63) < t \<and> t < 2 ^ 63)"

definition iso_date :: "string \<Rightarrow> int option" where
  "iso_date s =
     (if length s = 10 \<and> s ! 4 = CHR ''-'' \<and> s ! 7 = CHR ''-'' then
        (case (natural (take 4 s), natural (take 2 (drop 5 s)), natural (drop 8 s)) of
           (Some y, Some m, Some d) \<Rightarrow>
             if 1 \<le> m \<and> m \<le> 12 \<and> 1 \<le> d \<and> int d \<le> days_in_month (int y) (int m) \<and>
                in_bounds (days_from_civil (int y) (int m) (int d) * nanoseconds_per_day)
             then Some (days_from_civil (int y) (int m) (int d) * nanoseconds_per_day)
             else None
         | _ \<Rightarrow> None)
      else None)"

definition weekdays :: "string list" where
  "weekdays =
     [''Thursday'', ''Friday'', ''Saturday'', ''Sunday'', ''Monday'', ''Tuesday'', ''Wednesday'']"

definition plain :: pandas where
  "plain =
     \<lparr>parse_numeric = (\<lambda>v. case v of Str s \<Rightarrow> numeral_of s | _ \<Rightarrow> NaN),
      parse_datetime = (\<lambda>vs i. case vs ! i of Str s \<Rightarrow> iso_date s | _ \<Rightarrow> None),
      epoch_seconds =
        (\<lambda>v. case v of
                Num q \<Rightarrow>
                  if of_int \<lfloor>q\<rfloor> = q then
                    (if in_bounds (\<lfloor>q\<rfloor> * 1000000000) then Inr (Some (\<lfloor>q\<rfloor> * 1000000000))
                     else Inl OutOfBoundsDatetime)
                  else Inl ValueError
              | Time t \<Rightarrow> Inr (Some t)
              | _ \<Rightarrow> Inl ValueError),
      mean_non_numeric = mean_with_infinities,
      int64_overflow = (\<lambda>q. - (2 ^ 63)),
      dt_month = (\<lambda>t. month_from_days (t div nanoseconds_per_day)),
      dt_day_name = (\<lambda>t. weekdays ! nat ((t div nanoseconds_per_day) mod 7))\<rparr>"

section \<open>Examples\<close>

text \<open>A table with a repeated transaction in its last row.\<close>

definition repeated_sale :: dataframe where
  "repeated_sale =
     \<lparr>index = [0, 1, 2],
      columns =
        [(''product_id'', [Num 7, Num 8, Num 7]),
         (''sale_date'', [Time 0, Time 0, Time 0]),
         (''sale_amount'', [Num 5, Num 5, Num 5]),
         (''book_title'', [Str ''A'', Str ''B'', Str ''C''])]\<rparr>"

text \<open>The weather reading and the three sales of scenario C.\<close>

definition london :: weather_data where
  "london =
     \<lparr>name = Some (Str ''London''),
      main = Some [(''temp'', Num 5), (''humidity'', Num 80)],
      weather = Some [[(''description'', Str ''Rain'')]],
      wind = Some [(''speed'', Num 3)],
      dt = Some (Num 1672531200)\<rparr>"

definition london_frame :: dataframe where
  "london_frame =
     \<lparr>index = [0],
      columns =
        [(''city'', [Str ''London'']),
         (''temperature_celsius'', [Num 5]),
         (''weather_condition'', [Str ''Rain'']),
         (''humidity_percent'', [Num 80]),
         (''wind_speed_m_s'', [Num 3]),
         (''report_timestamp'', [Time 1672531200000000000])]\<rparr>"

definition three_sales :: dataframe where
  "three_sales =
     \<lparr>index = [0, 1, 2],
      columns =
        [(''product_id'', [Num 1, Num 2, Num 3]),
         (''sale_date'', [Time 0, Time 0, NA]),
         (''sale_amount'', [Num 10, Num 20, Num 30])]\<rparr>"

text \<open>Normalised sales and listings tables for the join.\<close>

definition two_sales :: dataframe where
  "two_sales =
     \<lparr>index = [0, 1],
      columns =
        [(''product_id'', [Num 1, Num 2]),
         (''sale_date'', [Time 0, Time 0]),
         (''sale_amount'', [Num 10, Num 20])]\<rparr>"

definition one_book :: dataframe where
  "one_book =
     \<lparr>index = [0],
      columns =
        [(''book_title'', [Str ''A'']),
         (''book_availability'', [Str ''In stock'']),
         (''book_price_gbp'', [Num (5177 / 100)])]\<rparr>"

definition relabelled_sale :: dataframe where
  "relabelled_sale =
     \<lparr>index = [1],
      columns =
        [(''product_id'', [Num 1]),
         (''sale_date'', [Time 0]),
         (''sale_amount'', [Num 10])]\<rparr>"

definition swapped_sales :: dataframe where
  "swapped_sales =
     \<lparr>index = [1, 0],
      columns =
        [(''product_id'', [Num 1, Num 2]),
         (''sale_date'', [Time 0, Time 0]),
         (''sale_amount'', [Num 10, Num 20])]\<rparr>"

definition two_books :: dataframe where
  "two_books =
     \<lparr>index = [0, 1],
      columns =
        [(''book_title'', [Str ''A'', Str ''B''])]\<rparr>"

text \<open>The two sales of scenario A: the first amount is missing.\<close>

definition scenario_A :: dataframe where
  "scenario_A =
     \<lparr>index = [0, 1],
      columns =
        [(''product_id'', [Num 1, Num 1]),
         (''sale_date'', [Str ''2023-01-01'', Str ''2023-01-01'']),
         (''sale_amount'', [NA, Num 10])]\<rparr>"

text \<open>
  Raw sales with cells that do not parse, and a sale whose product id is negative.
\<close>

definition raw_sales :: dataframe where
  "raw_sales =
     \<lparr>index = [0, 1],
      columns =
        [(''product_id'', [Str ''x'', Num (7 / 2)]),
         (''sale_date'', [Str ''not a date'', Str ''2023-01-01'']),
         (''sale_amount'', [Num 10, Num 20])]\<rparr>"


text \<open>The tables that the normalizer makes of them, and of no weather reading.\<close>

definition no_weather_frame :: dataframe where
  "no_weather_frame =
     \<lparr>index = [],
      columns =
        [(''city'', []), (''temperature_celsius'', []), (''weather_condition'', []),
         (''humidity_percent'', []), (''wind_speed_m_s'', []), (''report_timestamp'', [])]\<rparr>"

definition raw_sales_normalized :: dataframe where
  "raw_sales_normalized =
     \<lparr>index = [0, 1],
      columns =
        [(''product_id'', [Num 0, Num 3]),
         (''sale_date'', [NA, Time 1672531200000000000]),
         (''sale_amount'', [Num 10, Num 20]),
         (''sale_month'', [NA, Num 1]),
         (''sale_day_name'', [NA, Str ''Sunday''])]\<rparr>"


text \<open>
  Two listings, the second with a price that does not parse, and what lines 68 to 73
  make of them.
\<close>

definition unreadable_books :: "pydict list" where
  "unreadable_books =
     [[(''title'', Str ''A''), (''price'', Str (CHR 0xC2 # CHR 0xA3 # ''51.77'')),
       (''availability'', Str ''In stock'')],
      [(''title'', Str ''B''), (''price'', Str ''abc''), (''availability'', Str ''In stock'')]]"

definition unreadable_books_cleaned :: dataframe where
  "unreadable_books_cleaned =
     \<lparr>index = [0, 1],
      columns =
        [(''book_title'', [Str ''A'', Str ''B'']),
         (''book_availability'', [Str ''In stock'', Str ''In stock'']),
         (''book_price_gbp'', [Num (5177 / 100), Num 0])]\<rparr>"

text \<open>A sale whose product id reads as the float infinity.\<close>

definition infinite_id :: dataframe where
  "infinite_id =
     \<lparr>index = [0, 1],
      columns =
        [(''product_id'', [Str ''inf'', Num 2]),
         (''sale_date'', [Time 0, Time 0]),
         (''sale_amount'', [Num 10, Num 20])]\<rparr>"



text \<open>
  A weather reading with an empty list of conditions, a listing without a price, and
  a listing with all its entries.
\<close>

definition no_conditions :: weather_data where
  "no_conditions =
     \<lparr>name = Some (Str ''London''), main = None, weather = Some [], wind = None, dt = None\<rparr>"

definition priceless_listing :: "pydict list" where
  "priceless_listing = [[(''title'', Str ''A'')]]"

definition one_listing :: "pydict list" where
  "one_listing =
     [[(''title'', Str ''A''), (''price'', Str ''51.77''), (''availability'', Str ''In stock'')]]"


definition three_sales_table :: dataframe where
  "three_sales_table =
     \<lparr>index = [0, 1, 2],
      columns =
        [(''product_id'', [Num 1, Num 2, Num 3]),
         (''sale_date'', [Time 0, Time 0, NA]),
         (''sale_amount'', [Num 10, Num 20, Num 30]),
         (''sale_month'', [Num 1, Num 1, NA]),
         (''sale_day_name'', [Str ''Thursday'', Str ''Thursday'', NA])]\<rparr>"

definition three_sales_outcome :: outcome where
  "three_sales_outcome =
     \<lparr>returned = three_sales_table, weather_after = None,
      sales_after = Some three_sales_table, listings_after = None\<rparr>"

section \<open>Basic facts\<close>

lemma bind_Inr [simp]: "bind (Inr x) f = f x"
  by (simp add: bind_def)

lemma bind_Inl [simp]: "bind (Inl e) f = Inl e"
  by (simp add: bind_def)

lemma bind_eq_Inr: "bind m f = Inr y \<longleftrightarrow> (\<exists>x. m = Inr x \<and> f x = Inr y)"
  by (cases m) auto

subsection \<open>Columns of a table\<close>

lemma map_of_set_column [simp]:
  "map_of (set_column cols c vs) d = (if d = c then Some vs else map_of cols d)"
  by (induction cols) auto

lemma names_set_column:
  "set (map fst (set_column cols c vs)) = insert c (set (map fst cols))"
  by (induction cols c vs rule: set_column.induct) auto

lemma set_set_column:
  "p \<in> set (set_column cols c vs) \<Longrightarrow> p = (c, vs) \<or> p \<in> set cols"
  by (induction cols) (auto split: if_splits)

lemma set_column_not_Nil [simp]: "set_column cols c vs \<noteq> []"
  by (induction cols c vs rule: set_column.induct) auto

lemma index_setitem [simp]: "index (setitem df c vs) = index df"
  by (simp add: setitem_def)

lemma nrows_setitem [simp]: "nrows (setitem df c vs) = nrows df"
  by (simp add: nrows_def)

lemma columns_setitem [simp]: "columns (setitem df c vs) = set_column (columns df) c vs"
  by (simp add: setitem_def)

lemma getitem_setitem [simp]:
  "getitem (setitem df c vs) d = (if d = c then Inr vs else getitem df d)"
  by (simp add: getitem_def)

lemma df_empty_setitem [simp]: "df_empty (setitem df c vs) = (index df = [])"
  by (simp add: df_empty_def)

lemma wf_column_length:
  "wf df \<Longrightarrow> (c, vs) \<in> set (columns df) \<Longrightarrow> length vs = nrows df"
  by (auto simp: wf_def list_all_iff)

lemma wf_setitem: "wf df \<Longrightarrow> length vs = nrows df \<Longrightarrow> wf (setitem df c vs)"
  by (auto simp: wf_def list_all_iff dest: set_set_column)

lemma getitem_eq_Inr: "getitem df c = Inr vs \<longleftrightarrow> map_of (columns df) c = Some vs"
  by (simp add: getitem_def split: option.splits)

lemma getitem_in_names: "c \<in> set (column_names df) \<Longrightarrow> \<exists>vs. getitem df c = Inr vs"
  by (cases "map_of (columns df) c")
     (auto simp: getitem_def column_names_def map_of_eq_None_iff)

lemma getitem_length: "wf df \<Longrightarrow> getitem df c = Inr vs \<Longrightarrow> length vs = nrows df"
  by (auto simp: getitem_eq_Inr dest: map_of_SomeD wf_column_length)

section \<open>The Deduplicator\<close>

lemma length_flag_seen [simp]: "length (flag_seen seen ks) = length ks"
  by (induction ks arbitrary: seen) auto

lemma nth_flag_seen:
  "i < length ks \<Longrightarrow> flag_seen seen ks ! i = (ks ! i \<in> set seen \<union> set (take i ks))"
proof (induction ks arbitrary: seen i)
  case Nil
  then show ?case by simp
next
  case (Cons k ks)
  show ?case
  proof (cases i)
    case 0
    then show ?thesis by simp
  next
    case (Suc j)
    with Cons.prems have "j < length ks" by simp
    from Cons.IH [OF this, of "k # seen"] Suc show ?thesis by auto
  qed
qed

lemma length_key_rows [simp]: "length (key_rows n vss) = n"
  by (simp add: key_rows_def)

lemma select_Cons [simp]:
  "select (k # ks) (x # xs) = (if k then x # select ks xs else select ks xs)"
  by (simp add: select_def)

lemma select_Nil [simp]: "select [] xs = []" "select ks [] = []"
  by (simp_all add: select_def)

lemma select_positions:
  "length ks = length xs \<Longrightarrow>
   select ks xs = map ((!) xs) (filter (\<lambda>i. ks ! i) [0..<length xs])"
proof (induction ks xs rule: list_induct2)
  case Nil
  then show ?case by simp
next
  case (Cons k ks x xs)
  have "[0..<length (x # xs)] = 0 # map Suc [0..<length xs]"
    by (simp add: upt_conv_Cons map_Suc_upt del: upt_Suc)
  then show ?case using Cons.IH
    by (simp add: filter_map comp_def del: upt_Suc)
qed

lemma select_all:
  "length ks = length xs \<Longrightarrow> filter id ks = [] \<Longrightarrow> select (map Not ks) xs = xs"
proof (induction ks xs rule: list_induct2)
  case Nil
  then show ?case by simp
next
  case (Cons k ks x xs)
  then show ?case by (cases k) auto
qed

lemma select_rows_positions:
  assumes "wf df" and "length ks = nrows df"
  shows "select_rows ks df = take_rows df (filter (\<lambda>i. ks ! i) [0..<nrows df])"
proof -
  have "select ks (index df) = map ((!) (index df)) (filter (\<lambda>i. ks ! i) [0..<nrows df])"
    using assms(2) select_positions [of ks "index df"] by (simp add: nrows_def)
  moreover have "map (\<lambda>(c, vs). (c, select ks vs)) (columns df) =
      map (\<lambda>(c, vs). (c, map ((!) vs) (filter (\<lambda>i. ks ! i) [0..<nrows df]))) (columns df)"
  proof (rule map_cong [OF refl])
    fix p assume p: "p \<in> set (columns df)"
    obtain c vs where [simp]: "p = (c, vs)" by (cases p)
    from p assms(1) have "length vs = nrows df"
      by (simp add: wf_column_length)
    with assms(2) select_positions [of ks vs]
    show "(case p of (c, vs) \<Rightarrow> (c, select ks vs)) =
          (case p of (c, vs) \<Rightarrow> (c, map ((!) vs) (filter (\<lambda>i. ks ! i) [0..<nrows df])))"
      by simp
  qed
  ultimately show ?thesis by (simp add: select_rows_def take_rows_def)
qed

lemma select_rows_all:
  assumes "wf df" and "length ks = nrows df" and "filter id ks = []"
  shows "select_rows (map Not ks) df = df"
proof -
  have "select (map Not ks) (index df) = index df"
    using assms select_all [of ks "index df"] by (simp add: nrows_def)
  moreover have "map (\<lambda>(c, vs). (c, select (map Not ks) vs)) (columns df) =
      map (\<lambda>p. p) (columns df)"
  proof (rule map_cong [OF refl])
    fix p assume p: "p \<in> set (columns df)"
    obtain c vs where [simp]: "p = (c, vs)" by (cases p)
    from p assms(1) have "length vs = nrows df"
      by (simp add: wf_column_length)
    with assms select_all [of ks vs]
    show "(case p of (c, vs) \<Rightarrow> (c, select (map Not ks) vs)) = p"
      by simp
  qed
  ultimately show ?thesis by (simp add: select_rows_def)
qed

lemma length_duplicated:
  "duplicated df cols = Inr dup \<Longrightarrow> length dup = nrows df"
  by (auto simp: duplicated_def bind_eq_Inr)

text \<open>Both branches of lines 130 to 142 give the rows that are not flagged.\<close>

lemma remove_duplicates_select:
  assumes "wf df" and "duplicated df subset_cols = Inr dup"
  shows "remove_duplicates df = Inr (select_rows (map Not dup) df)"
proof (cases "filter id dup = []")
  case True
  with assms length_duplicated [OF assms(2)] show ?thesis
    by (simp add: remove_duplicates_def select_rows_all)
next
  case False
  with assms show ?thesis
    by (simp add: remove_duplicates_def drop_duplicates_def)
qed

lemma duplicated_keys:
  assumes "getitem df ''product_id'' = Inr a" "getitem df ''sale_date'' = Inr b"
    "getitem df ''sale_amount'' = Inr c"
  shows "duplicated df subset_cols = Inr (flag_seen [] (key_rows (nrows df) [a, b, c]))"
  using assms by (simp add: duplicated_def subset_cols_def)

lemma nth_duplicated:
  assumes "i < n"
  shows "flag_seen [] (key_rows n [a, b, c]) ! i =
    (\<exists>j<i. (a ! j, b ! j, c ! j) = (a ! i, b ! i, c ! i))"
proof -
  have "flag_seen [] (key_rows n [a, b, c]) ! i =
      (key_rows n [a, b, c] ! i \<in> set (take i (key_rows n [a, b, c])))"
    using assms nth_flag_seen [of i "key_rows n [a, b, c]" "[]"] by simp
  also have "\<dots> = (\<exists>j<i. key_rows n [a, b, c] ! j = key_rows n [a, b, c] ! i)"
    using assms by (auto simp: in_set_conv_nth)
  also have "\<dots> = (\<exists>j<i. (a ! j, b ! j, c ! j) = (a ! i, b ! i, c ! i))"
    using assms by (auto simp: key_rows_def)
  finally show ?thesis .
qed

text \<open>
  Claim C3. On a joined table that has the three key columns, the Deduplicator keeps
  exactly the rows whose composite key (product_id, sale_date, sale_amount) occurs in no
  earlier row, that is the first row of every group of rows with one key, and it keeps
  them with their labels and values in their original order.
\<close>

theorem deduplicator_keeps_first:
  assumes "wf df"
    and "getitem df ''product_id'' = Inr a"
    and "getitem df ''sale_date'' = Inr b"
    and "getitem df ''sale_amount'' = Inr c"
  shows "remove_duplicates df =
     Inr (take_rows df
       (filter (\<lambda>i. \<forall>j<i. (a ! j, b ! j, c ! j) \<noteq> (a ! i, b ! i, c ! i)) [0..<nrows df]))"
proof -
  let ?dup = "flag_seen [] (key_rows (nrows df) [a, b, c])"
  have d: "duplicated df subset_cols = Inr ?dup"
    using assms(2-4) by (rule duplicated_keys)
  have len: "length (map Not ?dup) = nrows df" by simp
  have "filter (\<lambda>i. map Not ?dup ! i) [0..<nrows df] =
        filter (\<lambda>i. \<forall>j<i. (a ! j, b ! j, c ! j) \<noteq> (a ! i, b ! i, c ! i)) [0..<nrows df]"
    by (rule filter_cong [OF refl]) (auto simp: nth_duplicated)
  with remove_duplicates_select [OF assms(1) d] select_rows_positions [OF assms(1) len]
  show ?thesis by simp
qed

theorem deduplicator_keeps_first_witness:
  "wf repeated_sale \<and>
   getitem repeated_sale ''product_id'' = Inr [Num 7, Num 8, Num 7] \<and>
   getitem repeated_sale ''sale_date'' = Inr [Time 0, Time 0, Time 0] \<and>
   getitem repeated_sale ''sale_amount'' = Inr [Num 5, Num 5, Num 5] \<and>
   remove_duplicates repeated_sale =
     Inr \<lparr>index = [0, 1],
          columns =
            [(''product_id'', [Num 7, Num 8]),
             (''sale_date'', [Time 0, Time 0]),
             (''sale_amount'', [Num 5, Num 5]),
             (''book_title'', [Str ''A'', Str ''B''])]\<rparr>"
proof -
  have h1: "wf repeated_sale"
    by (simp add: wf_def repeated_sale_def nrows_def)
  have h2: "getitem repeated_sale ''product_id'' = Inr [Num 7, Num 8, Num 7]"
    by (simp add: getitem_def repeated_sale_def)
  have h3: "getitem repeated_sale ''sale_date'' = Inr [Time 0, Time 0, Time 0]"
    by (simp add: getitem_def repeated_sale_def)
  have h4: "getitem repeated_sale ''sale_amount'' = Inr [Num 5, Num 5, Num 5]"
    by (simp add: getitem_def repeated_sale_def)
  have n: "[0..<nrows repeated_sale] = [0, Suc 0, Suc (Suc 0)]"
    by (simp add: nrows_def repeated_sale_def upt_rec)
  have f: "filter (\<lambda>i. \<forall>j<i. ([Num 7, Num 8, Num 7] ! j, [Time 0, Time 0, Time 0] ! j,
                [Num 5, Num 5, Num 5] ! j) \<noteq>
              ([Num 7, Num 8, Num 7] ! i, [Time 0, Time 0, Time 0] ! i,
                [Num 5, Num 5, Num 5] ! i)) [0..<nrows repeated_sale] = [0, 1]"
    unfolding n by (simp add: All_less_Suc)
  have t: "take_rows repeated_sale [0, 1] =
     \<lparr>index = [0, 1],
      columns =
        [(''product_id'', [Num 7, Num 8]),
         (''sale_date'', [Time 0, Time 0]),
         (''sale_amount'', [Num 5, Num 5]),
         (''book_title'', [Str ''A'', Str ''B''])]\<rparr>"
    by (simp add: take_rows_def repeated_sale_def)
  from deduplicator_keeps_first [OF h1 h2 h3 h4]
  have "remove_duplicates repeated_sale =
     Inr \<lparr>index = [0, 1],
          columns =
            [(''product_id'', [Num 7, Num 8]),
             (''sale_date'', [Time 0, Time 0]),
             (''sale_amount'', [Num 5, Num 5]),
             (''book_title'', [Str ''A'', Str ''B''])]\<rparr>"
    unfolding f t .
  with h1 h2 h3 h4 show ?thesis by simp
qed

section \<open>The Broadcast Merger\<close>

lemma broadcast_columns_result:
  assumes "\<And>c. c \<in> set cols \<Longrightarrow> \<exists>v vs. map_of (columns w) c = Some (v # vs)"
  shows "\<exists>out. broadcast_columns w cols s = Inr out \<and> index out = index s \<and>
     (\<forall>c. map_of (columns out) c =
        (if c \<in> set cols
         then map_option (\<lambda>vs. replicate (nrows s) (hd vs)) (map_of (columns w) c)
         else map_of (columns s) c))"
  using assms
proof (induction cols arbitrary: s)
  case Nil
  then show ?case by simp
next
  case (Cons col cols)
  from Cons.prems [of col] obtain v vs where c: "map_of (columns w) col = Some (v # vs)"
    by auto
  let ?s = "setitem_scalar s col v"
  from Cons.IH [of ?s] Cons.prems obtain out where
    out: "broadcast_columns w cols ?s = Inr out" "index out = index ?s"
      "\<forall>c. map_of (columns out) c =
        (if c \<in> set cols
         then map_option (\<lambda>vs. replicate (nrows ?s) (hd vs)) (map_of (columns w) c)
         else map_of (columns ?s) c)"
    by auto
  have n: "nrows ?s = nrows s" "index ?s = index s"
    by (simp_all add: setitem_scalar_def)
  from c out(1) have "broadcast_columns w (col # cols) s = Inr out"
    by (simp add: getitem_def iloc0_def)
  moreover from out(2) n have "index out = index s" by simp
  moreover have "\<forall>c. map_of (columns out) c =
        (if c \<in> set (col # cols)
         then map_option (\<lambda>vs. replicate (nrows s) (hd vs)) (map_of (columns w) c)
         else map_of (columns s) c)"
    using out(3) c n by (auto simp: setitem_scalar_def)
  ultimately show ?case by blast
qed

lemma wf_broadcast_columns:
  "wf s \<Longrightarrow> broadcast_columns w cols s = Inr out \<Longrightarrow> wf out \<and> index out = index s"
proof (induction cols arbitrary: s)
  case Nil
  then show ?case by simp
next
  case (Cons col cols)
  from Cons.prems(2) obtain v where
    "broadcast_columns w cols (setitem_scalar s col v) = Inr out"
    by (auto simp: bind_eq_Inr)
  moreover from Cons.prems(1) have "wf (setitem_scalar s col v)"
    by (simp add: setitem_scalar_def wf_setitem)
  ultimately show ?case using Cons.IH [of "setitem_scalar s col v"]
    by (simp add: setitem_scalar_def)
qed

text \<open>
  Claim C5. For every sales table (and so for every non-empty one) and every weather
  table, the Broadcast Merger returns a table with as many rows as the sales table. If
  the weather table is not empty, every weather column is in the output and holds, in
  every row, the value of the first weather row, and the other columns are those of the
  sales table. If the weather table has no rows, the output is the sales table itself,
  so that no weather column has been added.
\<close>

theorem broadcast_merger:
  assumes "wf weather_df"
  shows "\<exists>out. broadcast_weather weather_df sales_df = Inr out \<and>
     nrows out = nrows sales_df \<and>
     (\<not> df_empty weather_df \<longrightarrow>
        (\<forall>c vs. map_of (columns weather_df) c = Some vs \<longrightarrow>
           map_of (columns out) c = Some (replicate (nrows sales_df) (hd vs))) \<and>
        (\<forall>c. c \<notin> set (column_names weather_df) \<longrightarrow>
           map_of (columns out) c = map_of (columns sales_df) c)) \<and>
     (nrows weather_df = 0 \<longrightarrow> out = sales_df)"
proof (cases "df_empty weather_df")
  case True
  then show ?thesis by (simp add: broadcast_weather_def)
next
  case False
  then have rows: "0 < nrows weather_df"
    by (simp add: df_empty_def nrows_def)
  have "\<exists>v vs. map_of (columns weather_df) c = Some (v # vs)"
    if "c \<in> set (column_names weather_df)" for c
  proof -
    from that obtain ws where ws: "map_of (columns weather_df) c = Some ws"
      using getitem_in_names [of c weather_df] by (auto simp: getitem_eq_Inr)
    with assms have "length ws = nrows weather_df"
      by (auto dest: map_of_SomeD wf_column_length)
    with rows ws show ?thesis by (cases ws) auto
  qed
  from broadcast_columns_result [of "column_names weather_df" weather_df sales_df, OF this]
  obtain out where
    out: "broadcast_columns weather_df (column_names weather_df) sales_df = Inr out"
    "index out = index sales_df"
    "\<forall>c. map_of (columns out) c =
        (if c \<in> set (column_names weather_df)
         then map_option (\<lambda>vs. replicate (nrows sales_df) (hd vs))
                (map_of (columns weather_df) c)
         else map_of (columns sales_df) c)"
    by blast
  have "map_of (columns out) c = Some (replicate (nrows sales_df) (hd vs))"
    if "map_of (columns weather_df) c = Some vs" for c vs
  proof -
    from that have "c \<in> set (column_names weather_df)"
      by (auto simp: column_names_def dest: map_of_SomeD intro: rev_image_eqI)
    with out(3) that show ?thesis by simp
  qed
  with out False rows show ?thesis
    by (auto simp: broadcast_weather_def nrows_def)
qed

theorem broadcast_merger_witness:
  "wf london_frame \<and>
   weather_frame plain (Some london) = Inr london_frame \<and>
   broadcast_weather london_frame three_sales =
     Inr \<lparr>index = [0, 1, 2],
          columns =
            [(''product_id'', [Num 1, Num 2, Num 3]),
             (''sale_date'', [Time 0, Time 0, NA]),
             (''sale_amount'', [Num 10, Num 20, Num 30]),
             (''city'', [Str ''London'', Str ''London'', Str ''London'']),
             (''temperature_celsius'', [Num 5, Num 5, Num 5]),
             (''weather_condition'', [Str ''Rain'', Str ''Rain'', Str ''Rain'']),
             (''humidity_percent'', [Num 80, Num 80, Num 80]),
             (''wind_speed_m_s'', [Num 3, Num 3, Num 3]),
             (''report_timestamp'',
              [Time 1672531200000000000, Time 1672531200000000000,
               Time 1672531200000000000])]\<rparr> \<and>
   (\<exists>out. broadcast_weather london_frame three_sales = Inr out \<and>
      nrows out = nrows three_sales \<and>
      map_of (columns out) ''city'' = Some (replicate (nrows three_sales) (Str ''London'')) \<and>
      map_of (columns out) ''temperature_celsius'' =
        Some (replicate (nrows three_sales) (Num 5)))"
proof -
  have h: "wf london_frame"
    by (simp add: wf_def london_frame_def nrows_def)
  have w: "weather_frame plain (Some london) = Inr london_frame"
    by code_simp
  have e: "\<not> df_empty london_frame"
    by (simp add: df_empty_def london_frame_def)
  have c: "map_of (columns london_frame) ''city'' = Some [Str ''London'']"
    "map_of (columns london_frame) ''temperature_celsius'' = Some [Num 5]"
    by (simp_all add: london_frame_def)
  from broadcast_merger [OF h, of three_sales] e c
  have "\<exists>out. broadcast_weather london_frame three_sales = Inr out \<and>
      nrows out = nrows three_sales \<and>
      map_of (columns out) ''city'' = Some (replicate (nrows three_sales) (Str ''London'')) \<and>
      map_of (columns out) ''temperature_celsius'' =
        Some (replicate (nrows three_sales) (Num 5))"
    by fastforce
  moreover have "broadcast_weather london_frame three_sales =
     Inr \<lparr>index = [0, 1, 2],
          columns =
            [(''product_id'', [Num 1, Num 2, Num 3]),
             (''sale_date'', [Time 0, Time 0, NA]),
             (''sale_amount'', [Num 10, Num 20, Num 30]),
             (''city'', [Str ''London'', Str ''London'', Str ''London'']),
             (''temperature_celsius'', [Num 5, Num 5, Num 5]),
             (''weather_condition'', [Str ''Rain'', Str ''Rain'', Str ''Rain'']),
             (''humidity_percent'', [Num 80, Num 80, Num 80]),
             (''wind_speed_m_s'', [Num 3, Num 3, Num 3]),
             (''report_timestamp'',
              [Time 1672531200000000000, Time 1672531200000000000,
               Time 1672531200000000000])]\<rparr>"
    by code_simp
  ultimately show ?thesis using h w by blast
qed

section \<open>The Positional Joiner\<close>

lemma at_label_RangeIndex:
  assumes "length vs = m"
  shows "at_label (RangeIndex m) vs k = (if 0 \<le> k \<and> k < int m then vs ! nat k else NA)"
proof (cases "0 \<le> k \<and> k < int m")
  case True
  then have n: "nat k < m" "k = int (nat k)" by auto
  have "map_of (zip (RangeIndex m) vs) (RangeIndex m ! nat k) = Some (vs ! nat k)"
    using assms n(1)
    by (intro map_of_zip_nth) (simp_all add: RangeIndex_def distinct_map inj_on_def)
  moreover have "RangeIndex m ! nat k = k"
    using n by (simp add: RangeIndex_def)
  ultimately show ?thesis using True by (simp add: at_label_def)
next
  case False
  then have "k \<notin> set (RangeIndex m)" by (auto simp: RangeIndex_def)
  moreover have "length (RangeIndex m) = length vs"
    using assms by (simp add: RangeIndex_def)
  ultimately have "map_of (zip (RangeIndex m) vs) k = None"
    by (simp add: map_of_zip_is_None)
  then show ?thesis using False by (auto simp: at_label_def)
qed

lemma at_label_positions:
  assumes "length vs = m"
  shows "map (at_label (RangeIndex m) vs) (RangeIndex n) =
     map (\<lambda>i. if i < m then vs ! i else NA) [0..<n]"
proof -
  have "map (at_label (RangeIndex m) vs) (RangeIndex n) =
      map (\<lambda>i. at_label (RangeIndex m) vs (int i)) [0..<n]"
    by (simp add: RangeIndex_def comp_def)
  also have "\<dots> = map (\<lambda>i. if i < m then vs ! i else NA) [0..<n]"
    by (rule map_cong [OF refl]) (simp add: at_label_RangeIndex [OF assms])
  finally show ?thesis .
qed

lemma new_duplicates_same [simp]: "\<not> new_duplicates names names"
  by (auto simp: new_duplicates_def list_ex_iff set_zip)

lemma suffixed_Nil [simp]: "suffixed sfx [] names = names"
  by (simp add: suffixed_def)

lemma overlap_disjoint:
  "set (column_names l) \<inter> set (column_names r) = {} \<Longrightarrow> overlap l r = []"
  by (auto simp: overlap_def filter_empty_conv)

lemma no_clash_disjoint:
  assumes "set (column_names l) \<inter> set (column_names r) = {}"
  shows "left_names l r = column_names l" "right_names l r = column_names r"
    "\<not> suffix_clash l r"
  using overlap_disjoint [OF assms]
  by (simp_all add: left_names_def right_names_def suffix_clash_def)

lemma zip_names_columns: "zip (map fst cols) (map f cols) = map (\<lambda>p. (fst p, f p)) cols"
  by (induction cols) auto

lemma right_columns_positions:
  assumes "wf r" and "index r = RangeIndex m"
  shows "map (\<lambda>(c, vs). map (at_label (index r) vs) (RangeIndex n)) (columns r) =
         map (\<lambda>(c, vs). map (\<lambda>i. if i < m then vs ! i else NA) [0..<n]) (columns r)"
proof (rule map_cong [OF refl])
  fix p assume p: "p \<in> set (columns r)"
  obtain c vs where [simp]: "p = (c, vs)" by (cases p)
  from p assms have "length vs = m"
    by (auto dest: wf_column_length simp: nrows_def RangeIndex_def)
  with assms(2) at_label_positions [of vs m n]
  show "(case p of (c, vs) \<Rightarrow> map (at_label (index r) vs) (RangeIndex n)) =
        (case p of (c, vs) \<Rightarrow> map (\<lambda>i. if i < m then vs ! i else NA) [0..<n])"
    by simp
qed

lemma right_columns_labels:
  assumes "wf r" and "index r = RangeIndex m"
  shows "map (\<lambda>(c, vs). map (at_label (index r) vs) ks) (columns r) =
         map (\<lambda>(c, vs). map (\<lambda>k. if 0 \<le> k \<and> k < int m then vs ! nat k else NA) ks) (columns r)"
proof (rule map_cong [OF refl])
  fix p assume p: "p \<in> set (columns r)"
  obtain c vs where [simp]: "p = (c, vs)" by (cases p)
  from p assms have "length vs = m"
    by (auto dest: wf_column_length simp: nrows_def RangeIndex_def)
  with assms(2) at_label_RangeIndex [of vs m]
  show "(case p of (c, vs) \<Rightarrow> map (at_label (index r) vs) ks) =
        (case p of (c, vs) \<Rightarrow> map (\<lambda>k. if 0 \<le> k \<and> k < int m then vs ! nat k else NA) ks)"
    by simp
qed

text \<open>
  Claim C4, amended. The join pairs rows by position when the sales table carries the
  default labels \<open>0, ..., n - 1\<close> (the listings table, built from a list, always carries
  \<open>0, ..., m - 1\<close>). Then an empty listings table leaves the sales table unchanged;
  otherwise the join fails only on a clash of column names created by the suffixes, and
  else returns \<open>n\<close> rows in the order of the sales table, where row \<open>i\<close> has the sales
  values of row \<open>i\<close> and, in the listing columns, the listing values of row \<open>i\<close> if
  \<open>i < m\<close> and missing values if \<open>i \<ge> m\<close>.
\<close>

theorem positional_joiner:
  assumes "wf scraped_df"
    and "index merged_df = RangeIndex n"
    and "index scraped_df = RangeIndex m"
  shows "join_listings merged_df scraped_df =
     (if df_empty scraped_df then Inr merged_df
      else if suffix_clash merged_df scraped_df then Inl MergeError
      else Inr \<lparr>index = RangeIndex n,
                columns =
                  zip (left_names merged_df scraped_df) (map snd (columns merged_df)) @
                  zip (right_names merged_df scraped_df)
                      (map (\<lambda>(c, vs). map (\<lambda>i. if i < m then vs ! i else NA) [0..<n])
                           (columns scraped_df))\<rparr>)"
  unfolding join_listings_def merge_left_index_def assms(2)
    right_columns_positions [OF assms(1,3), of n]
  by simp

theorem positional_joiner_witness:
  "wf one_book \<and> index two_sales = RangeIndex 2 \<and> index one_book = RangeIndex 1 \<and>
   join_listings two_sales one_book =
     Inr \<lparr>index = [0, 1],
          columns =
            [(''product_id'', [Num 1, Num 2]),
             (''sale_date'', [Time 0, Time 0]),
             (''sale_amount'', [Num 10, Num 20]),
             (''book_title'', [Str ''A'', NA]),
             (''book_availability'', [Str ''In stock'', NA]),
             (''book_price_gbp'', [Num (5177 / 100), NA])]\<rparr>"
proof -
  have h1: "wf one_book" by code_simp
  have h2: "index two_sales = RangeIndex 2" by code_simp
  have h3: "index one_book = RangeIndex 1" by code_simp
  have e: "(if df_empty one_book then Inr two_sales
      else if suffix_clash two_sales one_book then Inl MergeError
      else Inr \<lparr>index = RangeIndex 2,
                columns =
                  zip (left_names two_sales one_book) (map snd (columns two_sales)) @
                  zip (right_names two_sales one_book)
                      (map (\<lambda>(c, vs). map (\<lambda>i. if i < 1 then vs ! i else NA) [0..<2])
                           (columns one_book))\<rparr>) =
     Inr \<lparr>index = [0, 1],
          columns =
            [(''product_id'', [Num 1, Num 2]),
             (''sale_date'', [Time 0, Time 0]),
             (''sale_amount'', [Num 10, Num 20]),
             (''book_title'', [Str ''A'', NA]),
             (''book_availability'', [Str ''In stock'', NA]),
             (''book_price_gbp'', [Num (5177 / 100), NA])]\<rparr>"
    by code_simp
  from positional_joiner [OF h1 h2 h3]
  have "join_listings two_sales one_book =
     Inr \<lparr>index = [0, 1],
          columns =
            [(''product_id'', [Num 1, Num 2]),
             (''sale_date'', [Time 0, Time 0]),
             (''sale_amount'', [Num 10, Num 20]),
             (''book_title'', [Str ''A'', NA]),
             (''book_availability'', [Str ''In stock'', NA]),
             (''book_price_gbp'', [Num (5177 / 100), NA])]\<rparr>"
    unfolding e .
  with h1 h2 h3 show ?thesis by simp
qed

text \<open>
  The claim as written fails on a sales table with other labels: the only sales row,
  labelled 1, is at position 0, the only listing is at position 0, and the row gets no
  book fields.
\<close>

theorem positional_joiner_counterexample:
  "nrows relabelled_sale = 1 \<and> nrows one_book = 1 \<and>
   join_listings relabelled_sale one_book =
     Inr \<lparr>index = [1],
          columns =
            [(''product_id'', [Num 1]),
             (''sale_date'', [Time 0]),
             (''sale_amount'', [Num 10]),
             (''book_title'', [NA]),
             (''book_availability'', [NA]),
             (''book_price_gbp'', [NA])]\<rparr>"
  by code_simp

text \<open>
  Claim C10. The join is on the row labels: a sales row labelled \<open>k\<close> gets the listing
  whose label is \<open>k\<close>, that is the listing at position \<open>k\<close> when \<open>0 \<le> k < m\<close>, and
  missing values otherwise, wherever the row stands in the sales table. When the sales
  table carries the default labels, this is the positional join of the specification.
  (The tables share no column name, so that no column is renamed.)
\<close>

theorem index_label_join:
  assumes "wf scraped_df" and "index scraped_df = RangeIndex m"
    and "\<not> df_empty scraped_df"
    and "set (column_names merged_df) \<inter> set (column_names scraped_df) = {}"
  shows "join_listings merged_df scraped_df =
     Inr \<lparr>index = index merged_df,
          columns = columns merged_df @
            map (\<lambda>(c, vs). (c, map (\<lambda>k. if 0 \<le> k \<and> k < int m then vs ! nat k else NA)
                                   (index merged_df)))
                (columns scraped_df)\<rparr> \<and>
     (index merged_df = RangeIndex (nrows merged_df) \<longrightarrow>
        join_listings merged_df scraped_df = Inr (positional_join merged_df scraped_df))"
proof -
  note nc = no_clash_disjoint [OF assms(4)]
  have l: "zip (column_names merged_df) (map snd (columns merged_df)) = columns merged_df"
    by (simp add: column_names_def zip_names_columns)
  have r: "zip (column_names scraped_df) (map (\<lambda>(c, vs). f vs) (columns scraped_df)) =
      map (\<lambda>(c, vs). (c, f vs)) (columns scraped_df)" for f :: "cell list \<Rightarrow> cell list"
    by (simp add: column_names_def zip_names_columns case_prod_beta)
  have labels: "join_listings merged_df scraped_df =
     Inr \<lparr>index = index merged_df,
          columns = columns merged_df @
            map (\<lambda>(c, vs). (c, map (\<lambda>k. if 0 \<le> k \<and> k < int m then vs ! nat k else NA)
                                   (index merged_df)))
                (columns scraped_df)\<rparr>"
    unfolding join_listings_def merge_left_index_def
      right_columns_labels [OF assms(1,2), of "index merged_df"]
    using assms(3) nc l
      r [of "\<lambda>vs. map (\<lambda>k. if 0 \<le> k \<and> k < int m then vs ! nat k else NA) (index merged_df)"]
    by simp
  have m: "nrows scraped_df = m"
    using assms(2) by (simp add: nrows_def RangeIndex_def)
  have "join_listings merged_df scraped_df = Inr (positional_join merged_df scraped_df)"
    if d: "index merged_df = RangeIndex (nrows merged_df)"
  proof -
    have "join_listings merged_df scraped_df =
        Inr \<lparr>index = index merged_df,
          columns = columns merged_df @
            map (\<lambda>(c, vs). (c, map (\<lambda>i. if i < m then vs ! i else NA) [0..<nrows merged_df]))
                (columns scraped_df)\<rparr>"
      unfolding join_listings_def merge_left_index_def
      apply (subst (2) d)
      unfolding right_columns_positions [OF assms(1,2), of "nrows merged_df"]
      using assms(3) nc l
        r [of "\<lambda>vs. map (\<lambda>i. if i < m then vs ! i else NA) [0..<nrows merged_df]"]
      by simp
    then show ?thesis
      using assms(3) m by (simp add: positional_join_def)
  qed
  with labels show ?thesis by blast
qed

theorem index_label_join_witness:
  "wf two_books \<and> index two_books = RangeIndex 2 \<and> df_empty two_books = False \<and>
   set (column_names swapped_sales) \<inter> set (column_names two_books) = {} \<and>
   set (column_names two_sales) \<inter> set (column_names two_books) = {} \<and>
   index two_sales = RangeIndex (nrows two_sales) \<and>
   join_listings swapped_sales two_books =
     Inr \<lparr>index = [1, 0],
          columns =
            [(''product_id'', [Num 1, Num 2]),
             (''sale_date'', [Time 0, Time 0]),
             (''sale_amount'', [Num 10, Num 20]),
             (''book_title'', [Str ''B'', Str ''A''])]\<rparr> \<and>
   join_listings two_sales two_books = Inr (positional_join two_sales two_books) \<and>
   positional_join two_sales two_books =
     \<lparr>index = [0, 1],
      columns =
        [(''product_id'', [Num 1, Num 2]),
         (''sale_date'', [Time 0, Time 0]),
         (''sale_amount'', [Num 10, Num 20]),
         (''book_title'', [Str ''A'', Str ''B''])]\<rparr>"
proof -
  have h1: "wf two_books" by code_simp
  have h2: "index two_books = RangeIndex 2" by code_simp
  have h3: "\<not> df_empty two_books" by code_simp
  have h4: "set (column_names swapped_sales) \<inter> set (column_names two_books) = {}"
    by (simp add: column_names_def swapped_sales_def two_books_def)
  have h5: "set (column_names two_sales) \<inter> set (column_names two_books) = {}"
    by (simp add: column_names_def two_sales_def two_books_def)
  have h6: "index two_sales = RangeIndex (nrows two_sales)" by code_simp
  have e: "\<lparr>index = index swapped_sales,
          columns = columns swapped_sales @
            map (\<lambda>(c, vs). (c, map (\<lambda>k. if 0 \<le> k \<and> k < int 2 then vs ! nat k else NA)
                                   (index swapped_sales)))
                (columns two_books)\<rparr> =
     \<lparr>index = [1, 0],
          columns =
            [(''product_id'', [Num 1, Num 2]),
             (''sale_date'', [Time 0, Time 0]),
             (''sale_amount'', [Num 10, Num 20]),
             (''book_title'', [Str ''B'', Str ''A''])]\<rparr>"
    by code_simp
  from index_label_join [OF h1 h2 h3 h4]
  have a: "join_listings swapped_sales two_books =
     Inr \<lparr>index = [1, 0],
          columns =
            [(''product_id'', [Num 1, Num 2]),
             (''sale_date'', [Time 0, Time 0]),
             (''sale_amount'', [Num 10, Num 20]),
             (''book_title'', [Str ''B'', Str ''A''])]\<rparr>"
    unfolding e by (rule conjunct1)
  from index_label_join [OF h1 h2 h3 h5] h6
  have b: "join_listings two_sales two_books = Inr (positional_join two_sales two_books)"
    by blast
  have c: "positional_join two_sales two_books =
     \<lparr>index = [0, 1],
      columns =
        [(''product_id'', [Num 1, Num 2]),
         (''sale_date'', [Time 0, Time 0]),
         (''sale_amount'', [Num 10, Num 20]),
         (''book_title'', [Str ''A'', Str ''B''])]\<rparr>"
    by code_simp
  from h1 h2 h3 h4 h5 h6 a b c show ?thesis by simp
qed

section \<open>The Source Normalizer\<close>


lemma getitem_names: "getitem df c = Inr vs \<Longrightarrow> c \<in> set (column_names df)"
  by (auto simp: getitem_eq_Inr column_names_def dest: map_of_SomeD intro: rev_image_eqI)



subsection \<open>Lines 68 to 76 on text that does not parse\<close>

lemma bind_assoc: "bind (bind m f) g = bind m (\<lambda>x. bind (f x) g)"
  by (cases m) simp_all

lemma map_of_drop:
  "map_of (filter (\<lambda>(d, vs). d \<noteq> c) cols) k = (if k = c then None else map_of cols k)"
  by (induction cols) auto

lemma map_of_rename:
  assumes "\<And>c. (f c = k) = (c = k)"
  shows "map_of (map (\<lambda>(c, vs). (f c, vs)) cols) k = map_of cols k"
proof (induction cols)
  case Nil
  show ?case by simp
next
  case (Cons p cols)
  obtain c vs where p: "p = (c, vs)" by (cases p)
  show ?case
  proof (cases "c = k")
    case True
    with assms [of c] have "f c = k" by blast
    with True p show ?thesis by simp
  next
    case False
    with assms [of c] have "f c \<noteq> k" by blast
    with False p Cons.IH show ?thesis by simp
  qed
qed

lemma getitem_drop_column [simp]:
  "getitem (drop_column df c) k = (if k = c then Inl (KeyError k) else getitem df k)"
  by (simp add: getitem_def drop_column_def map_of_drop)

lemma getitem_rename_books:
  "getitem (rename_columns df [(''title'', ''book_title''), (''availability'', ''book_availability'')])
     ''book_price_gbp'' = getitem df ''book_price_gbp''"
proof -
  have "map_of (map (\<lambda>(c, vs). (case map_of [(''title'', ''book_title''),
            (''availability'', ''book_availability'')] c of None \<Rightarrow> c | Some c' \<Rightarrow> c', vs))
          (columns df)) ''book_price_gbp'' = map_of (columns df) ''book_price_gbp''"
    by (rule map_of_rename) auto
  then show ?thesis by (simp add: getitem_def rename_columns_def)
qed

lemma str_replace_pound_text:
  "list_ex is_text vs \<Longrightarrow>
   str_replace_pound vs = Inr (map (\<lambda>v. case v of Str s \<Rightarrow> Str (strip_pound s) | _ \<Rightarrow> NA) vs)"
  by (simp add: str_replace_pound_def)

lemma correct_listing_types_prices:
  assumes "\<not> df_empty scraped_df" and "getitem scraped_df ''price'' = Inr price"
    and "list_ex is_text price"
  shows "\<exists>out. correct_listing_types lib scraped_df = Inr out \<and>
     getitem out ''book_price_gbp'' =
       Inr (map (\<lambda>v. case v of
                        Str s \<Rightarrow> (case parse_numeric lib (Str (strip_pound s)) of
                                    NaN \<Rightarrow> Num 0
                                  | x \<Rightarrow> number x)
                      | _ \<Rightarrow> Num 0) price)"
proof -
  have "fillna (Num 0) (map (\<lambda>v. number (to_numeric_coerce lib v))
          (map (\<lambda>v. case v of Str s \<Rightarrow> Str (strip_pound s) | _ \<Rightarrow> NA) price)) =
      map (\<lambda>v. case v of
                        Str s \<Rightarrow> (case parse_numeric lib (Str (strip_pound s)) of
                                    NaN \<Rightarrow> Num 0
                                  | x \<Rightarrow> number x)
                      | _ \<Rightarrow> Num 0) price"
    by (auto simp: fillna_def number_def to_numeric_coerce_def split: cell.splits float64.splits)
  with assms show ?thesis
    by (simp add: correct_listing_types_def str_replace_pound_text getitem_rename_books)
qed

lemma length_to_datetime_coerce [simp]: "length (to_datetime_coerce lib vs) = length vs"
  by (simp add: to_datetime_coerce_def)

lemma astype_int_Inr:
  "astype_int lib xs = Inr ks \<Longrightarrow>
   length ks = length xs \<and>
   (\<forall>i<length xs. \<exists>q. xs ! i = Finite q \<and> ks ! i = Num (of_int (int64_cast lib q)))"
proof (induction xs arbitrary: ks)
  case Nil
  then show ?case by simp
next
  case (Cons x xs)
  from Cons.prems obtain k ks' where
    k: "int64_of lib x = Inr k" and ks': "astype_int lib xs = Inr ks'"
    and ks: "ks = Num (of_int k) # ks'"
    by (auto simp: bind_eq_Inr)
  from k obtain q where q: "x = Finite q" "k = int64_cast lib q"
    by (auto simp: int64_of_def split: float64.splits)
  from Cons.IH [OF ks'] have ih: "length ks' = length xs"
    "\<forall>i<length xs. \<exists>q. xs ! i = Finite q \<and> ks' ! i = Num (of_int (int64_cast lib q))"
    by simp_all
  show ?case
  proof (intro conjI allI impI)
    show "length ks = length (x # xs)" using ih(1) ks by simp
    fix i assume "i < length (x # xs)"
    then show "\<exists>q. (x # xs) ! i = Finite q \<and> ks ! i = Num (of_int (int64_cast lib q))"
      using ih(2) q ks by (cases i) simp_all
  qed
qed

lemma astype_int_finite:
  "(\<forall>x\<in>set xs. \<exists>q. x = Finite q) \<Longrightarrow> \<exists>ks. astype_int lib xs = Inr ks"
proof (induction xs)
  case Nil
  then show ?case by simp
next
  case (Cons x xs)
  then obtain q ks where "x = Finite q" "astype_int lib xs = Inr ks" by auto
  then show ?case by (simp add: int64_of_def)
qed

lemma astype_int_infinite:
  "(\<exists>x\<in>set xs. \<forall>q. x \<noteq> Finite q) \<Longrightarrow> astype_int lib xs = Inl IntCastingNaNError"
proof (induction xs)
  case Nil
  then show ?case by simp
next
  case (Cons x xs)
  show ?case
  proof (cases "\<exists>q. x = Finite q")
    case True
    with Cons have "astype_int lib xs = Inl IntCastingNaNError" by auto
    with True show ?thesis by (auto simp: int64_of_def)
  next
    case False
    then show ?thesis by (cases x) (simp_all add: int64_of_def)
  qed
qed

lemma nth_fillna_zero:
  "i < length vs \<Longrightarrow>
   fillna_zero (map (to_numeric_coerce lib) vs) ! i =
     (if to_numeric_coerce lib (vs ! i) = NaN then Finite 0 else to_numeric_coerce lib (vs ! i))"
  by (simp add: fillna_zero_def)

lemma int64_cast_zero [simp]: "int64_cast lib 0 = 0"
  by (simp add: int64_cast_def toward_zero_def)

text \<open>Line 76 on a column: what it returns when it returns.\<close>

lemma product_ids_Inr:
  assumes "astype_int lib (fillna_zero (map (to_numeric_coerce lib) product_id)) = Inr ids"
  shows "length ids = length product_id"
    and "\<forall>i<length product_id.
       (\<exists>k. ids ! i = Num (of_int k)) \<and>
       (to_numeric_coerce lib (product_id ! i) = NaN \<longrightarrow> ids ! i = Num 0) \<and>
       (\<forall>q. to_numeric_coerce lib (product_id ! i) = Finite q \<longrightarrow>
          ids ! i = Num (of_int (int64_cast lib q)))"
proof -
  note a = astype_int_Inr [OF assms]
  from a show "length ids = length product_id" by (simp add: fillna_zero_def)
  show "\<forall>i<length product_id.
       (\<exists>k. ids ! i = Num (of_int k)) \<and>
       (to_numeric_coerce lib (product_id ! i) = NaN \<longrightarrow> ids ! i = Num 0) \<and>
       (\<forall>q. to_numeric_coerce lib (product_id ! i) = Finite q \<longrightarrow>
          ids ! i = Num (of_int (int64_cast lib q)))"
  proof (intro allI impI)
    fix i assume i: "i < length product_id"
    with a obtain q where
      q: "fillna_zero (map (to_numeric_coerce lib) product_id) ! i = Finite q"
        "ids ! i = Num (of_int (int64_cast lib q))"
      by (auto simp: fillna_zero_def)
    from q(1) i have c: "(if to_numeric_coerce lib (product_id ! i) = NaN then Finite 0
        else to_numeric_coerce lib (product_id ! i)) = Finite q"
      by (simp add: nth_fillna_zero)
    show "(\<exists>k. ids ! i = Num (of_int k)) \<and>
       (to_numeric_coerce lib (product_id ! i) = NaN \<longrightarrow> ids ! i = Num 0) \<and>
       (\<forall>q. to_numeric_coerce lib (product_id ! i) = Finite q \<longrightarrow>
          ids ! i = Num (of_int (int64_cast lib q)))"
      using q(2) c by (auto split: if_splits)
  qed
qed

lemma product_ids_return:
  assumes "\<forall>v\<in>set product_id.
      to_numeric_coerce lib v \<noteq> Infinity \<and> to_numeric_coerce lib v \<noteq> MinusInfinity"
  shows "\<exists>ids. astype_int lib (fillna_zero (map (to_numeric_coerce lib) product_id)) = Inr ids"
proof (rule astype_int_finite, rule ballI)
  fix x assume "x \<in> set (fillna_zero (map (to_numeric_coerce lib) product_id))"
  then obtain v where v: "v \<in> set product_id"
    and x: "x = (if to_numeric_coerce lib v = NaN then Finite 0 else to_numeric_coerce lib v)"
    by (auto simp: fillna_zero_def)
  from assms v x show "\<exists>q. x = Finite q"
    by (cases "to_numeric_coerce lib v") auto
qed

section \<open>The function on an absent or empty sales table, and on the others\<close>

lemma df_empty_pd_DataFrame [simp]: "df_empty pd_DataFrame"
  by (simp add: df_empty_def pd_DataFrame_def)

lemma standardize_columns_empty [simp]: "df_empty df \<Longrightarrow> standardize_columns df = df"
  by (simp add: standardize_columns_def)

lemma fill_sale_amount_empty [simp]: "df_empty df \<Longrightarrow> fill_sale_amount lib df = Inr df"
  by (simp add: fill_sale_amount_def)

lemma correct_sales_types_empty [simp]: "df_empty df \<Longrightarrow> correct_sales_types lib df = Inr df"
  by (simp add: correct_sales_types_def)

lemma add_features_empty [simp]: "df_empty df \<Longrightarrow> add_features lib df = Inr df"
  by (simp add: add_features_def)

lemma transform_data_empty:
  assumes "sales = None \<or> (\<exists>df. sales = Some df \<and> df_empty df)"
  shows "transform_data lib weather_data sales scraped_data =
     bind (weather_frame lib weather_data) (\<lambda>weather_df.
     bind (correct_listing_types lib (standardize_columns (listings_frame scraped_data)))
       (\<lambda>scraped_df.
          Inr \<lparr>returned = pd_DataFrame, weather_after = weather_data, sales_after = sales,
               listings_after = scraped_data\<rparr>))"
proof -
  have b: "bind_sales \<lparr>caller_weather = weather_data, caller_sales = sales,
              caller_listings = scraped_data, local_sales = pd_DataFrame\<rparr> =
      (Local, \<lparr>caller_weather = weather_data, caller_sales = sales,
              caller_listings = scraped_data, local_sales = pd_DataFrame\<rparr>)"
    using assms by (auto simp: bind_sales_def)
  show ?thesis
    by (simp add: transform_data_def normalizer_def b deref_def assign_def leave_def bind_assoc)
qed

lemma normalizer_nonempty:
  assumes "\<not> df_empty sales"
  shows "normalizer lib \<lparr>caller_weather = weather_data, caller_sales = Some sales,
              caller_listings = scraped_data, local_sales = pd_DataFrame\<rparr> =
     bind (weather_frame lib weather_data) (\<lambda>weather_df.
     bind (fill_sale_amount lib (standardize_columns sales)) (\<lambda>filled.
     bind (correct_listing_types lib (standardize_columns (listings_frame scraped_data)))
       (\<lambda>scraped_df.
     bind (correct_sales_types lib filled) (\<lambda>typed.
     bind (add_features lib typed) (\<lambda>featured.
       Inr (standardize_columns weather_df, scraped_df, Caller,
            \<lparr>caller_weather = weather_data, caller_sales = Some featured,
             caller_listings = scraped_data, local_sales = pd_DataFrame\<rparr>))))))"
proof -
  have b: "bind_sales \<lparr>caller_weather = weather_data, caller_sales = Some sales,
              caller_listings = scraped_data, local_sales = pd_DataFrame\<rparr> =
      (Caller, \<lparr>caller_weather = weather_data, caller_sales = Some sales,
              caller_listings = scraped_data, local_sales = pd_DataFrame\<rparr>)"
    using assms by (simp add: bind_sales_def)
  show ?thesis
    by (simp add: normalizer_def b deref_def assign_def)
qed

lemma transform_data_nonempty:
  assumes "\<not> df_empty sales"
  shows "transform_data lib weather_data (Some sales) scraped_data =
     bind (weather_frame lib weather_data) (\<lambda>weather_df.
     bind (fill_sale_amount lib (standardize_columns sales)) (\<lambda>filled.
     bind (correct_listing_types lib (standardize_columns (listings_frame scraped_data)))
       (\<lambda>scraped_df.
     bind (correct_sales_types lib filled) (\<lambda>typed.
     bind (add_features lib typed) (\<lambda>featured.
       if df_empty featured
       then Inr \<lparr>returned = pd_DataFrame, weather_after = weather_data,
                 sales_after = Some featured, listings_after = scraped_data\<rparr>
       else
         bind (broadcast_weather (standardize_columns weather_df) featured) (\<lambda>merged_df.
         bind (join_listings merged_df scraped_df) (\<lambda>final_df.
         bind (remove_duplicates final_df) (\<lambda>final_df_cleaned.
           Inr \<lparr>returned = final_df_cleaned, weather_after = weather_data,
                sales_after = Some merged_df, listings_after = scraped_data\<rparr>))))))))"
  by (simp add: transform_data_def normalizer_nonempty [OF assms] deref_def assign_def
      leave_def bind_assoc cong del: if_weak_cong)

subsection \<open>What every block keeps\<close>

lemma column_names_setitem:
  "set (column_names (setitem df c vs)) = insert c (set (column_names df))"
  using names_set_column [of "columns df" c vs] by (simp add: column_names_def)

lemma standardize_columns_facts [simp]:
  "index (standardize_columns df) = index df"
  "nrows (standardize_columns df) = nrows df"
  "df_empty (standardize_columns df) = df_empty df"
  "wf (standardize_columns df) = wf df"
  by (auto simp: standardize_columns_def nrows_def df_empty_def wf_def list_all_iff)

lemma fill_sale_amount_facts:
  assumes "fill_sale_amount lib df = Inr out"
  shows "index out = index df" "wf df \<Longrightarrow> wf out" "df_empty out = df_empty df"
    "c \<noteq> ''sale_amount'' \<Longrightarrow> getitem out c = getitem df c"
proof -
  show "index out = index df"
    using assms by (auto simp: fill_sale_amount_def bind_eq_Inr split: if_splits)
  show "df_empty out = df_empty df"
    using assms by (auto simp: fill_sale_amount_def bind_eq_Inr df_empty_def split: if_splits)
  show "getitem out c = getitem df c" if "c \<noteq> ''sale_amount''"
    using assms that by (auto simp: fill_sale_amount_def bind_eq_Inr split: if_splits)
  show "wf out" if "wf df"
  proof (cases "\<not> df_empty df \<and> ''sale_amount'' \<in> set (column_names df)")
    case True
    with assms obtain amounts m where
      a: "getitem df ''sale_amount'' = Inr amounts"
      and o: "out = setitem df ''sale_amount'' (fillna m amounts)"
      by (auto simp: fill_sale_amount_def bind_eq_Inr)
    from getitem_length [OF that a] have "length (fillna m amounts) = nrows df"
      by (simp add: fillna_def)
    with that o show ?thesis by (simp add: wf_setitem)
  next
    case False
    with assms that show ?thesis by (auto simp: fill_sale_amount_def)
  qed
qed

lemma correct_sales_types_Inr:
  assumes "correct_sales_types lib df = Inr out" and "\<not> df_empty df"
  obtains sale_date product_id ids where
    "getitem df ''sale_date'' = Inr sale_date"
    "getitem df ''product_id'' = Inr product_id"
    "astype_int lib (fillna_zero (map (to_numeric_coerce lib) product_id)) = Inr ids"
    "out = setitem (setitem df ''sale_date'' (to_datetime_coerce lib sale_date))
            ''product_id'' ids"
  using assms by (auto simp: correct_sales_types_def bind_eq_Inr)

lemma correct_sales_types_facts:
  assumes "correct_sales_types lib df = Inr out"
  shows "index out = index df" "wf df \<Longrightarrow> wf out" "df_empty out = df_empty df"
    "\<not> df_empty df \<Longrightarrow> ''sale_date'' \<in> set (column_names out)"
proof -
  show "index out = index df"
    using assms by (auto simp: correct_sales_types_def bind_eq_Inr split: if_splits)
  show "df_empty out = df_empty df"
    using assms
    by (auto simp: correct_sales_types_def bind_eq_Inr df_empty_def split: if_splits)
  show "''sale_date'' \<in> set (column_names out)" if "\<not> df_empty df"
    using assms that
    by (auto simp: correct_sales_types_def bind_eq_Inr column_names_setitem split: if_splits)
  show "wf out" if "wf df"
  proof (cases "df_empty df")
    case True
    with assms that show ?thesis by simp
  next
    case False
    from correct_sales_types_Inr [OF assms False] obtain sale_date product_id ids where
      d: "getitem df ''sale_date'' = Inr sale_date"
      and p: "getitem df ''product_id'' = Inr product_id"
      and a: "astype_int lib (fillna_zero (map (to_numeric_coerce lib) product_id)) = Inr ids"
      and o: "out = setitem (setitem df ''sale_date'' (to_datetime_coerce lib sale_date))
            ''product_id'' ids"
      by blast
    from product_ids_Inr(1) [OF a] have "length ids = length product_id" .
    with that d p show ?thesis
      unfolding o by (intro wf_setitem) (simp_all add: getitem_length)
  qed
qed

lemma add_features_result:
  assumes "\<not> df_empty df" and "getitem df ''sale_date'' = Inr sale_date"
  shows "add_features lib df =
     Inr (setitem (setitem df ''sale_month'' (map (month_of lib) sale_date))
            ''sale_day_name'' (map (day_name_of lib) sale_date))"
  using assms getitem_names [OF assms(2)] by (simp add: add_features_def)

lemma add_features_facts:
  assumes "add_features lib df = Inr out"
  shows "index out = index df" "wf df \<Longrightarrow> wf out" "df_empty out = df_empty df"
    "\<not> df_empty df \<Longrightarrow> ''sale_date'' \<in> set (column_names df) \<Longrightarrow>
       ''sale_month'' \<in> set (column_names out) \<and> ''sale_day_name'' \<in> set (column_names out)"
proof -
  show "index out = index df"
    using assms by (auto simp: add_features_def bind_eq_Inr split: if_splits)
  show "df_empty out = df_empty df"
    using assms by (auto simp: add_features_def bind_eq_Inr df_empty_def split: if_splits)
  show "''sale_month'' \<in> set (column_names out) \<and> ''sale_day_name'' \<in> set (column_names out)"
    if "\<not> df_empty df" "''sale_date'' \<in> set (column_names df)"
    using assms that
    by (auto simp: add_features_def bind_eq_Inr column_names_setitem split: if_splits)
  show "wf out" if "wf df"
  proof (cases "\<not> df_empty df \<and> ''sale_date'' \<in> set (column_names df)")
    case True
    with assms obtain sale_date where
      d: "getitem df ''sale_date'' = Inr sale_date"
      and o: "out = setitem (setitem df ''sale_month'' (map (month_of lib) sale_date))
            ''sale_day_name'' (map (day_name_of lib) sale_date)"
      by (auto simp: add_features_def bind_eq_Inr split: if_splits)
    from that d show ?thesis
      unfolding o by (intro wf_setitem) (simp_all add: getitem_length)
  next
    case False
    with assms that show ?thesis by (auto simp: add_features_def)
  qed
qed

lemma names_broadcast_columns:
  "broadcast_columns w cols s = Inr out \<Longrightarrow> set (column_names s) \<subseteq> set (column_names out)"
proof (induction cols arbitrary: s)
  case Nil
  then show ?case by simp
next
  case (Cons col cols)
  from Cons.prems obtain v where
    "broadcast_columns w cols (setitem_scalar s col v) = Inr out"
    by (auto simp: bind_eq_Inr)
  from Cons.IH [OF this] show ?case
    by (auto simp: setitem_scalar_def column_names_setitem)
qed

lemma index_broadcast_columns:
  "broadcast_columns w cols s = Inr out \<Longrightarrow> index out = index s"
proof (induction cols arbitrary: s)
  case Nil
  then show ?case by simp
next
  case (Cons col cols)
  from Cons.prems obtain v where
    "broadcast_columns w cols (setitem_scalar s col v) = Inr out"
    by (auto simp: bind_eq_Inr)
  from Cons.IH [OF this] show ?case
    by (simp add: setitem_scalar_def)
qed

lemma broadcast_weather_facts:
  assumes "broadcast_weather w df = Inr out"
  shows "index out = index df" "wf df \<Longrightarrow> wf out"
    "set (column_names df) \<subseteq> set (column_names out)"
proof -
  show "set (column_names df) \<subseteq> set (column_names out)"
    using assms names_broadcast_columns [of w "column_names w" df out]
    by (auto simp: broadcast_weather_def split: if_splits)
  show "index out = index df"
    using assms index_broadcast_columns [of w "column_names w" df out]
    by (auto simp: broadcast_weather_def split: if_splits)
  show "wf out" if "wf df"
    using assms that wf_broadcast_columns [of df w "column_names w" out]
    by (auto simp: broadcast_weather_def split: if_splits)
qed

lemma join_listings_facts:
  assumes "join_listings df scraped_df = Inr out"
  shows "index out = index df" "wf df \<Longrightarrow> wf out"
proof -
  show "index out = index df"
    using assms by (auto simp: join_listings_def merge_left_index_def split: if_splits)
  show "wf out" if "wf df"
  proof (cases "df_empty scraped_df")
    case True
    with assms that show ?thesis by (simp add: join_listings_def)
  next
    case False
    with assms have o: "out = \<lparr>index = index df,
                columns =
                  zip (left_names df scraped_df) (map snd (columns df)) @
                  zip (right_names df scraped_df)
                      (map (\<lambda>(c, vs). map (at_label (index scraped_df) vs) (index df))
                           (columns scraped_df))\<rparr>"
      by (auto simp: join_listings_def merge_left_index_def split: if_splits)
    have "length vs = nrows df"
      if "(c, vs) \<in> set (zip (left_names df scraped_df) (map snd (columns df)))" for c vs
    proof -
      from that have "vs \<in> snd ` set (columns df)"
        by (auto dest!: set_zip_rightD)
      with \<open>wf df\<close> show ?thesis by (auto dest: wf_column_length)
    qed
    moreover have "length vs = nrows df"
      if "(c, vs) \<in> set (zip (right_names df scraped_df)
                      (map (\<lambda>(c, vs). map (at_label (index scraped_df) vs) (index df))
                           (columns scraped_df)))" for c vs
    proof -
      from that have "vs \<in> set (map (\<lambda>(c, vs). map (at_label (index scraped_df) vs) (index df))
                           (columns scraped_df))"
        by (rule set_zip_rightD)
      then show ?thesis by (auto simp: nrows_def)
    qed
    ultimately show ?thesis
      unfolding o by (auto simp: wf_def list_all_iff nrows_def)
  qed
qed

subsection \<open>Keys of the rows that are kept\<close>

lemma getitem_take_rows:
  "getitem (take_rows df ps) c =
     (case getitem df c of Inl e \<Rightarrow> Inl e | Inr vs \<Rightarrow> Inr (map ((!) vs) ps))"
proof -
  have "map_of (map (\<lambda>(c, vs). (c, map ((!) vs) ps)) (columns df)) c =
      map_option (\<lambda>vs. map ((!) vs) ps) (map_of (columns df) c)"
    by (simp add: map_of_map)
  then show ?thesis
    by (simp add: getitem_def take_rows_def split: option.splits)
qed

lemma row_key_take_rows:
  "i < length ps \<Longrightarrow> row_key (take_rows df ps) i = row_key df (ps ! i)"
  by (simp add: row_key_def getitem_take_rows split: sum.splits)

lemma nrows_take_rows [simp]: "nrows (take_rows df ps) = length ps"
  by (simp add: nrows_def take_rows_def)

lemma row_key_columns:
  assumes "getitem df ''product_id'' = Inr a" "getitem df ''sale_date'' = Inr b"
    "getitem df ''sale_amount'' = Inr c"
  shows "row_key df i = [Some (a ! i), Some (b ! i), Some (c ! i)]"
  using assms by (simp add: row_key_def subset_cols_def)

lemma remove_duplicates_first_rows:
  assumes "wf df"
    and "getitem df ''product_id'' = Inr a"
    and "getitem df ''sale_date'' = Inr b"
    and "getitem df ''sale_amount'' = Inr c"
  shows "remove_duplicates df =
     Inr (take_rows df
       (filter (\<lambda>i. \<forall>j<i. (a ! j, b ! j, c ! j) \<noteq> (a ! i, b ! i, c ! i)) [0..<nrows df]))"
proof -
  let ?dup = "flag_seen [] (key_rows (nrows df) [a, b, c])"
  have d: "duplicated df subset_cols = Inr ?dup"
    using assms(2-4) by (rule duplicated_keys)
  have len: "length (map Not ?dup) = nrows df" by simp
  have "filter (\<lambda>i. map Not ?dup ! i) [0..<nrows df] =
        filter (\<lambda>i. \<forall>j<i. (a ! j, b ! j, c ! j) \<noteq> (a ! i, b ! i, c ! i)) [0..<nrows df]"
    by (rule filter_cong [OF refl]) (auto simp: nth_duplicated)
  with remove_duplicates_select [OF assms(1) d] select_rows_positions [OF assms(1) len]
  show ?thesis by simp
qed

lemma remove_duplicates_columns:
  assumes "remove_duplicates df = Inr out"
  shows "\<exists>a b c. getitem df ''product_id'' = Inr a \<and> getitem df ''sale_date'' = Inr b \<and>
     getitem df ''sale_amount'' = Inr c"
  using assms
  by (auto simp: remove_duplicates_def duplicated_def subset_cols_def bind_eq_Inr)

lemma remove_duplicates_keys:
  assumes "wf df" and "remove_duplicates df = Inr out"
  shows "\<forall>i j. i < j \<and> j < nrows out \<longrightarrow> row_key out i \<noteq> row_key out j"
    and "nrows out \<le> nrows df"
    and "(\<forall>i j. i < j \<and> j < nrows df \<longrightarrow> row_key df i \<noteq> row_key df j) \<Longrightarrow>
       nrows out = nrows df"
proof -
  from remove_duplicates_columns [OF assms(2)] obtain a b c where
    cols: "getitem df ''product_id'' = Inr a" "getitem df ''sale_date'' = Inr b"
      "getitem df ''sale_amount'' = Inr c"
    by blast
  define first where
    "first = (\<lambda>i. \<forall>j<i. (a ! j, b ! j, c ! j) \<noteq> (a ! i, b ! i, c ! i))"
  define kept where "kept = filter first [0..<nrows df]"
  from remove_duplicates_first_rows [OF assms(1) cols] assms(2)
  have out: "out = take_rows df kept"
    by (simp add: kept_def first_def)
  have key: "row_key df i = [Some (a ! i), Some (b ! i), Some (c ! i)]" for i
    using cols by (rule row_key_columns)
  have sorted: "sorted_wrt (<) kept"
    by (simp add: kept_def sorted_wrt_filter)
  show "\<forall>i j. i < j \<and> j < nrows out \<longrightarrow> row_key out i \<noteq> row_key out j"
  proof (intro allI impI)
    fix i j assume ij: "i < j \<and> j < nrows out"
    then have len: "i < length kept" "j < length kept" by (simp_all add: out)
    from sorted ij len have lt: "kept ! i < kept ! j"
      by (simp add: sorted_wrt_nth_less)
    from len have "kept ! j \<in> set kept" by simp
    then have "first (kept ! j)" by (simp add: kept_def)
    with lt have "(a ! (kept ! i), b ! (kept ! i), c ! (kept ! i)) \<noteq>
        (a ! (kept ! j), b ! (kept ! j), c ! (kept ! j))"
      by (simp add: first_def)
    with len show "row_key out i \<noteq> row_key out j"
      by (auto simp: out row_key_take_rows key)
  qed
  show "nrows out \<le> nrows df"
    using length_filter_le [of first "[0..<nrows df]"] by (simp add: out kept_def)
  show "nrows out = nrows df"
    if distinct: "\<forall>i j. i < j \<and> j < nrows df \<longrightarrow> row_key df i \<noteq> row_key df j"
  proof -
    have "first i" if "i \<in> set [0..<nrows df]" for i
      unfolding first_def
    proof (intro allI impI)
      fix j assume "j < i"
      with that distinct have "row_key df j \<noteq> row_key df i" by simp
      then show "(a ! j, b ! j, c ! j) \<noteq> (a ! i, b ! i, c ! i)"
        by (auto simp: key)
    qed
    then have "kept = [0..<nrows df]"
      by (simp add: kept_def)
    then show ?thesis by (simp add: out)
  qed
qed

section \<open>What the Source Normalizer absorbs\<close>

lemma listings_not_empty:
  assumes "getitem (standardize_columns (listings_frame scraped_data)) c = Inr vs"
  shows "\<not> df_empty (standardize_columns (listings_frame scraped_data))"
proof
  assume e: "df_empty (standardize_columns (listings_frame scraped_data))"
  then have e': "df_empty (listings_frame scraped_data)" by simp
  with assms have g: "getitem (listings_frame scraped_data) c = Inr vs" by simp
  then have cols: "columns (listings_frame scraped_data) \<noteq> []"
    by (auto simp: getitem_def split: option.splits)
  show False
  proof (cases scraped_data)
    case None
    with cols show False by (simp add: listings_frame_def pd_DataFrame_def)
  next
    case (Some ds)
    show False
    proof (cases "ds = []")
      case True
      with Some cols show False by (simp add: listings_frame_def pd_DataFrame_def)
    next
      case False
      with Some have "index (listings_frame scraped_data) \<noteq> []"
        by (simp add: listings_frame_def DataFrame_records_def RangeIndex_def)
      with e' cols show False by (simp add: df_empty_def)
    qed
  qed
qed

lemma correct_sales_types_result:
  assumes "\<not> df_empty df" and "getitem df ''sale_date'' = Inr sale_date"
    and "getitem df ''product_id'' = Inr product_id"
    and "astype_int lib (fillna_zero (map (to_numeric_coerce lib) product_id)) = Inr ids"
  shows "correct_sales_types lib df =
     Inr (setitem (setitem df ''sale_date'' (to_datetime_coerce lib sale_date))
            ''product_id'' ids)"
  using assms by (simp add: correct_sales_types_def)

text \<open>
  Lines 68 to 76 on a non-empty sales table and on listings whose price column holds
  a string, when the weather conversion and the mean of the amounts return: as long as
  no product id reads as an infinity, the normalizer returns, a price that does not
  parse becomes 0, an invalid date becomes missing, a product id that does not parse
  becomes 0, and every other cell gets its parsed value.
\<close>

lemma parse_failures_absorbed:
  assumes "\<not> df_empty sales"
    and "weather_frame lib weather_data = Inr weather_df"
    and "fill_sale_amount lib (standardize_columns sales) = Inr filled"
    and "getitem (standardize_columns (listings_frame scraped_data)) ''price'' = Inr price"
    and "list_ex is_text price"
    and "getitem (standardize_columns sales) ''sale_date'' = Inr sale_date"
    and "getitem (standardize_columns sales) ''product_id'' = Inr product_id"
    and "\<forall>v\<in>set product_id.
           to_numeric_coerce lib v \<noteq> Infinity \<and> to_numeric_coerce lib v \<noteq> MinusInfinity"
  shows "\<exists>scraped_df featured ids.
     normalizer lib
       \<lparr>caller_weather = weather_data, caller_sales = Some sales,
        caller_listings = scraped_data, local_sales = pd_DataFrame\<rparr> =
       Inr (standardize_columns weather_df, scraped_df, Caller,
            \<lparr>caller_weather = weather_data, caller_sales = Some featured,
             caller_listings = scraped_data, local_sales = pd_DataFrame\<rparr>) \<and>
     getitem scraped_df ''book_price_gbp'' =
       Inr (map (\<lambda>v. case v of
                        Str s \<Rightarrow> (case parse_numeric lib (Str (strip_pound s)) of
                                    NaN \<Rightarrow> Num 0
                                  | x \<Rightarrow> number x)
                      | _ \<Rightarrow> Num 0) price) \<and>
     getitem featured ''sale_date'' =
       Inr (map (\<lambda>i. case sale_date ! i of
                        NA \<Rightarrow> NA
                      | Time t \<Rightarrow> Time t
                      | _ \<Rightarrow> (case parse_datetime lib sale_date i of
                                None \<Rightarrow> NA
                              | Some t \<Rightarrow> Time t))
                [0..<length sale_date]) \<and>
     getitem featured ''product_id'' = Inr ids \<and> length ids = length product_id \<and>
     (\<forall>i<length product_id.
        (to_numeric_coerce lib (product_id ! i) = NaN \<longrightarrow> ids ! i = Num 0) \<and>
        (\<forall>q. to_numeric_coerce lib (product_id ! i) = Finite q \<longrightarrow>
           ids ! i = Num (of_int (int64_cast lib q))))"
proof -
  have l: "\<not> df_empty (standardize_columns (listings_frame scraped_data))"
    using assms(4) by (rule listings_not_empty)
  from correct_listing_types_prices [OF l assms(4,5), of lib] obtain scraped_df where
    s: "correct_listing_types lib (standardize_columns (listings_frame scraped_data)) =
        Inr scraped_df"
    and p: "getitem scraped_df ''book_price_gbp'' =
       Inr (map (\<lambda>v. case v of
                        Str s \<Rightarrow> (case parse_numeric lib (Str (strip_pound s)) of
                                    NaN \<Rightarrow> Num 0
                                  | x \<Rightarrow> number x)
                      | _ \<Rightarrow> Num 0) price)"
    by blast
  have f: "\<not> df_empty filled"
    using assms(1) fill_sale_amount_facts(3) [OF assms(3)] by simp
  have fd: "getitem filled ''sale_date'' = Inr sale_date"
    using assms(6) fill_sale_amount_facts(4) [OF assms(3), of "''sale_date''"] by simp
  have fp: "getitem filled ''product_id'' = Inr product_id"
    using assms(7) fill_sale_amount_facts(4) [OF assms(3), of "''product_id''"] by simp
  from product_ids_return [OF assms(8)] obtain ids where
    a: "astype_int lib (fillna_zero (map (to_numeric_coerce lib) product_id)) = Inr ids"
    by blast
  define typed where
    "typed = setitem (setitem filled ''sale_date'' (to_datetime_coerce lib sale_date))
       ''product_id'' ids"
  define featured where
    "featured = setitem (setitem typed ''sale_month''
         (map (month_of lib) (to_datetime_coerce lib sale_date)))
       ''sale_day_name'' (map (day_name_of lib) (to_datetime_coerce lib sale_date))"
  have t: "correct_sales_types lib filled = Inr typed"
    unfolding typed_def using f fd fp a by (rule correct_sales_types_result)
  have te: "\<not> df_empty typed"
    using f correct_sales_types_facts(3) [OF t] by simp
  have td: "getitem typed ''sale_date'' = Inr (to_datetime_coerce lib sale_date)"
    by (simp add: typed_def)
  have fe: "add_features lib typed = Inr featured"
    unfolding featured_def using te td by (rule add_features_result)
  have n: "normalizer lib
       \<lparr>caller_weather = weather_data, caller_sales = Some sales,
        caller_listings = scraped_data, local_sales = pd_DataFrame\<rparr> =
       Inr (standardize_columns weather_df, scraped_df, Caller,
            \<lparr>caller_weather = weather_data, caller_sales = Some featured,
             caller_listings = scraped_data, local_sales = pd_DataFrame\<rparr>)"
    by (simp add: normalizer_nonempty [OF assms(1)] assms(2,3) s t fe)
  have d: "getitem featured ''sale_date'' =
       Inr (map (\<lambda>i. case sale_date ! i of
                        NA \<Rightarrow> NA
                      | Time t \<Rightarrow> Time t
                      | _ \<Rightarrow> (case parse_datetime lib sale_date i of
                                None \<Rightarrow> NA
                              | Some t \<Rightarrow> Time t))
                [0..<length sale_date])"
    by (simp add: featured_def typed_def to_datetime_coerce_def timestamp_def
        cong: cell.case_cong)
  have i: "getitem featured ''product_id'' = Inr ids"
    by (simp add: featured_def typed_def)
  note k = product_ids_Inr [OF a]
  have v: "\<forall>i<length product_id.
        (to_numeric_coerce lib (product_id ! i) = NaN \<longrightarrow> ids ! i = Num 0) \<and>
        (\<forall>q. to_numeric_coerce lib (product_id ! i) = Finite q \<longrightarrow>
           ids ! i = Num (of_int (int64_cast lib q)))"
    using k(2) by blast
  show ?thesis
    by (rule exI [of _ scraped_df], rule exI [of _ featured], rule exI [of _ ids])
      (intro conjI n p d i k(1) v)
qed

lemma parse_failures_absorbed_example:
  "df_empty raw_sales = False \<and>
   weather_frame plain None = Inr no_weather_frame \<and>
   fill_sale_amount plain (standardize_columns raw_sales) = Inr raw_sales \<and>
   getitem (standardize_columns (listings_frame (Some unreadable_books))) ''price'' =
     Inr [Str (CHR 0xC2 # CHR 0xA3 # ''51.77''), Str ''abc''] \<and>
   list_ex is_text [Str (CHR 0xC2 # CHR 0xA3 # ''51.77''), Str ''abc''] \<and>
   getitem (standardize_columns raw_sales) ''sale_date'' =
     Inr [Str ''not a date'', Str ''2023-01-01''] \<and>
   getitem (standardize_columns raw_sales) ''product_id'' = Inr [Str ''x'', Num (7 / 2)] \<and>
   (\<forall>v\<in>set [Str ''x'', Num (7 / 2)].
      to_numeric_coerce plain v \<noteq> Infinity \<and> to_numeric_coerce plain v \<noteq> MinusInfinity) \<and>
   normalizer plain
     \<lparr>caller_weather = None, caller_sales = Some raw_sales,
      caller_listings = Some unreadable_books, local_sales = pd_DataFrame\<rparr> =
     Inr (no_weather_frame, unreadable_books_cleaned, Caller,
          \<lparr>caller_weather = None, caller_sales = Some raw_sales_normalized,
           caller_listings = Some unreadable_books, local_sales = pd_DataFrame\<rparr>) \<and>
   (\<exists>scraped_df featured ids.
     normalizer plain
       \<lparr>caller_weather = None, caller_sales = Some raw_sales,
        caller_listings = Some unreadable_books, local_sales = pd_DataFrame\<rparr> =
       Inr (standardize_columns no_weather_frame, scraped_df, Caller,
            \<lparr>caller_weather = None, caller_sales = Some featured,
             caller_listings = Some unreadable_books, local_sales = pd_DataFrame\<rparr>) \<and>
     getitem scraped_df ''book_price_gbp'' =
       Inr (map (\<lambda>v. case v of
                        Str s \<Rightarrow> (case parse_numeric plain (Str (strip_pound s)) of
                                    NaN \<Rightarrow> Num 0
                                  | x \<Rightarrow> number x)
                      | _ \<Rightarrow> Num 0) [Str (CHR 0xC2 # CHR 0xA3 # ''51.77''), Str ''abc'']) \<and>
     getitem featured ''sale_date'' =
       Inr (map (\<lambda>i. case [Str ''not a date'', Str ''2023-01-01''] ! i of
                        NA \<Rightarrow> NA
                      | Time t \<Rightarrow> Time t
                      | _ \<Rightarrow> (case parse_datetime plain
                                       [Str ''not a date'', Str ''2023-01-01''] i of
                                None \<Rightarrow> NA
                              | Some t \<Rightarrow> Time t))
                [0..<length [Str ''not a date'', Str ''2023-01-01'']]) \<and>
     getitem featured ''product_id'' = Inr ids \<and>
     length ids = length [Str ''x'', Num (7 / 2)] \<and>
     (\<forall>i<length [Str ''x'', Num (7 / 2)].
        (to_numeric_coerce plain ([Str ''x'', Num (7 / 2)] ! i) = NaN \<longrightarrow> ids ! i = Num 0) \<and>
        (\<forall>q. to_numeric_coerce plain ([Str ''x'', Num (7 / 2)] ! i) = Finite q \<longrightarrow>
           ids ! i = Num (of_int (int64_cast plain q)))))"
proof -
  have h1: "\<not> df_empty raw_sales" by code_simp
  have h1': "df_empty raw_sales = False" by code_simp
  have h2: "weather_frame plain None = Inr no_weather_frame" by code_simp
  have h3: "fill_sale_amount plain (standardize_columns raw_sales) = Inr raw_sales"
    by code_simp
  have h4: "getitem (standardize_columns (listings_frame (Some unreadable_books))) ''price'' =
     Inr [Str (CHR 0xC2 # CHR 0xA3 # ''51.77''), Str ''abc'']"
    by code_simp
  have h5: "list_ex is_text [Str (CHR 0xC2 # CHR 0xA3 # ''51.77''), Str ''abc'']"
    by code_simp
  have h6: "getitem (standardize_columns raw_sales) ''sale_date'' =
     Inr [Str ''not a date'', Str ''2023-01-01'']"
    by code_simp
  have h7: "getitem (standardize_columns raw_sales) ''product_id'' =
     Inr [Str ''x'', Num (7 / 2)]"
    by code_simp
  have h8: "\<forall>v\<in>set [Str ''x'', Num (7 / 2)].
      to_numeric_coerce plain v \<noteq> Infinity \<and> to_numeric_coerce plain v \<noteq> MinusInfinity"
    by code_simp
  have e: "normalizer plain
     \<lparr>caller_weather = None, caller_sales = Some raw_sales,
      caller_listings = Some unreadable_books, local_sales = pd_DataFrame\<rparr> =
     Inr (no_weather_frame, unreadable_books_cleaned, Caller,
          \<lparr>caller_weather = None, caller_sales = Some raw_sales_normalized,
           caller_listings = Some unreadable_books, local_sales = pd_DataFrame\<rparr>)"
    by code_simp
  note c = parse_failures_absorbed [OF h1 h2 h3 h4 h5 h6 h7 h8]
  show ?thesis by (intro conjI h1' h2 h3 h4 h5 h6 h7 h8 e c)
qed

text \<open>
  Claim C7, which the code breaks. Line 76 reads the product id \<open>inf\<close> as the float
  infinity; \<^verbatim>\<open>fillna(0)\<close> leaves it as it is and the cast \<^verbatim>\<open>.astype(int)\<close> raises
  \<open>IntCastingNaNError\<close> on it. So the Source Normalizer, and the function with it, raise
  on a sales table with this one malformed field value, which the claim has them absorb.
\<close>

theorem infinite_product_id_raises:
  "normalizer plain
     \<lparr>caller_weather = None, caller_sales = Some infinite_id,
      caller_listings = None, local_sales = pd_DataFrame\<rparr> =
     Inl IntCastingNaNError \<and>
   transform_data plain None (Some infinite_id) None = Inl IntCastingNaNError"
  by code_simp




section \<open>The function as a whole\<close>

text \<open>
  Claim C2, amended. On an absent or empty sales table the function first converts the
  weather reading and cleans the listings (lines 30 to 46, 53 to 56 and 68 to 73 come
  before the test of line 88); it raises what they raise, and when they return it
  returns an empty table and leaves the three objects of the caller as they are.
\<close>

theorem empty_sales_short_circuit:
  assumes "sales = None \<or> (\<exists>df. sales = Some df \<and> df_empty df)"
  shows "transform_data lib weather_data sales scraped_data =
     bind (weather_frame lib weather_data) (\<lambda>weather_df.
     bind (correct_listing_types lib (standardize_columns (listings_frame scraped_data)))
       (\<lambda>scraped_df.
          Inr \<lparr>returned = pd_DataFrame, weather_after = weather_data, sales_after = sales,
               listings_after = scraped_data\<rparr>))"
  using assms by (rule transform_data_empty)

theorem empty_sales_short_circuit_witness:
  "((None :: dataframe option) = None \<or> (\<exists>df. None = Some df \<and> df_empty df)) \<and>
   transform_data plain (Some london) None (Some one_listing) =
     Inr \<lparr>returned = pd_DataFrame, weather_after = Some london, sales_after = None,
          listings_after = Some one_listing\<rparr>"
proof -
  have h: "(None :: dataframe option) = None \<or> (\<exists>df. None = Some df \<and> df_empty df)"
    by simp
  have w: "weather_frame plain (Some london) = Inr london_frame"
    by code_simp
  have l: "correct_listing_types plain (standardize_columns (listings_frame (Some one_listing))) =
      Inr \<lparr>index = [0],
           columns =
             [(''book_title'', [Str ''A'']),
              (''book_availability'', [Str ''In stock'']),
              (''book_price_gbp'', [Num (5177 / 100)])]\<rparr>"
    by code_simp
  from empty_sales_short_circuit [OF h, of plain "Some london" "Some one_listing"]
  have "transform_data plain (Some london) None (Some one_listing) =
     Inr \<lparr>returned = pd_DataFrame, weather_after = Some london, sales_after = None,
          listings_after = Some one_listing\<rparr>"
    unfolding w l by simp
  with h show ?thesis by (rule conjI)
qed

text \<open>
  The claim as it was stated fails on a weather reading with an empty list of
  conditions and on a listing without a price: with no sales table at all, the function
  raises on each of them.
\<close>

theorem empty_sales_short_circuit_counterexample:
  "transform_data plain (Some no_conditions) None None = Inl IndexError \<and>
   transform_data plain None None (Some priceless_listing) = Inl (KeyError ''price'')"
  by code_simp




text \<open>
  Claim C9, amended. When the function returns on a well-formed sales table, no two rows
  of the returned table have the same composite key, and the returned table has at most
  as many rows as the sales table. On a non-empty sales table the returned table is the
  joined table without its duplicates, the joined table has as many rows as the sales
  table, and the returned table has as many when no two rows of the joined table have
  the same key. The keys are those of the rows after normalization.
\<close>

theorem composite_keys_unique:
  assumes "transform_data lib weather_data sales scraped_data = Inr out"
    and "\<forall>df. sales = Some df \<longrightarrow> wf df"
  shows "(\<forall>i j. i < j \<and> j < nrows (returned out) \<longrightarrow>
            row_key (returned out) i \<noteq> row_key (returned out) j) \<and>
     nrows (returned out) \<le> (case sales of None \<Rightarrow> 0 | Some df \<Rightarrow> nrows df) \<and>
     (\<forall>df. sales = Some df \<and> \<not> df_empty df \<longrightarrow>
        (\<exists>merged_df scraped_df final_df.
           sales_after out = Some merged_df \<and>
           correct_listing_types lib (standardize_columns (listings_frame scraped_data)) =
             Inr scraped_df \<and>
           join_listings merged_df scraped_df = Inr final_df \<and>
           remove_duplicates final_df = Inr (returned out) \<and>
           nrows final_df = nrows df \<and>
           ((\<forall>i j. i < j \<and> j < nrows final_df \<longrightarrow> row_key final_df i \<noteq> row_key final_df j) \<longrightarrow>
              nrows (returned out) = nrows df)))"
proof (cases "sales = None \<or> (\<exists>df. sales = Some df \<and> df_empty df)")
  case True
  from assms(1) have "returned out = pd_DataFrame"
    unfolding transform_data_empty [OF True] by (auto simp: bind_eq_Inr)
  then have "nrows (returned out) = 0"
    by (simp add: nrows_def pd_DataFrame_def)
  with True show ?thesis by auto
next
  case False
  then obtain df where df: "sales = Some df" "\<not> df_empty df" by auto
  with assms(2) have wf: "wf df" by simp
  from assms(1) obtain weather_df filled scraped_df typed featured where
    s: "fill_sale_amount lib (standardize_columns df) = Inr filled"
      "correct_listing_types lib (standardize_columns (listings_frame scraped_data)) =
        Inr scraped_df"
      "correct_sales_types lib filled = Inr typed"
      "add_features lib typed = Inr featured"
    and r: "(if df_empty featured
       then Inr \<lparr>returned = pd_DataFrame, weather_after = weather_data,
                 sales_after = Some featured, listings_after = scraped_data\<rparr>
       else
         bind (broadcast_weather (standardize_columns weather_df) featured) (\<lambda>merged_df.
         bind (join_listings merged_df scraped_df) (\<lambda>final_df.
         bind (remove_duplicates final_df) (\<lambda>final_df_cleaned.
           Inr \<lparr>returned = final_df_cleaned, weather_after = weather_data,
                sales_after = Some merged_df, listings_after = scraped_data\<rparr>)))) = Inr out"
    unfolding df(1) transform_data_nonempty [OF df(2)] bind_eq_Inr by blast
  have e: "\<not> df_empty featured"
    using df(2) fill_sale_amount_facts(3) [OF s(1)] correct_sales_types_facts(3) [OF s(3)]
      add_features_facts(3) [OF s(4)]
    by simp
  from r e obtain merged_df final_df where
    m: "broadcast_weather (standardize_columns weather_df) featured = Inr merged_df"
      "join_listings merged_df scraped_df = Inr final_df"
      "remove_duplicates final_df = Inr (returned out)"
    and o: "sales_after out = Some merged_df"
    by (auto simp: bind_eq_Inr)
  have i: "index final_df = index df"
    using fill_sale_amount_facts(1) [OF s(1)] correct_sales_types_facts(1) [OF s(3)]
      add_features_facts(1) [OF s(4)] broadcast_weather_facts(1) [OF m(1)]
      join_listings_facts(1) [OF m(2)]
    by simp
  then have n: "nrows final_df = nrows df" by (simp add: nrows_def)
  have "wf filled"
    using wf fill_sale_amount_facts(2) [OF s(1)] by simp
  then have "wf featured"
    using correct_sales_types_facts(2) [OF s(3)] add_features_facts(2) [OF s(4)] by simp
  then have w: "wf final_df"
    using broadcast_weather_facts(2) [OF m(1)] join_listings_facts(2) [OF m(2)] by simp
  note k = remove_duplicates_keys [OF w m(3)]
  from k(1) have "\<forall>i j. i < j \<and> j < nrows (returned out) \<longrightarrow>
            row_key (returned out) i \<noteq> row_key (returned out) j" .
  moreover from k(2) n df(1)
  have "nrows (returned out) \<le> (case sales of None \<Rightarrow> 0 | Some df \<Rightarrow> nrows df)"
    by simp
  moreover have "\<exists>merged_df scraped_df final_df.
           sales_after out = Some merged_df \<and>
           correct_listing_types lib (standardize_columns (listings_frame scraped_data)) =
             Inr scraped_df \<and>
           join_listings merged_df scraped_df = Inr final_df \<and>
           remove_duplicates final_df = Inr (returned out) \<and>
           nrows final_df = nrows df \<and>
           ((\<forall>i j. i < j \<and> j < nrows final_df \<longrightarrow> row_key final_df i \<noteq> row_key final_df j) \<longrightarrow>
              nrows (returned out) = nrows df)"
  proof -
    have k3: "(\<forall>i j. i < j \<and> j < nrows final_df \<longrightarrow> row_key final_df i \<noteq> row_key final_df j) \<longrightarrow>
        nrows (returned out) = nrows df"
      using k(3) n by simp
    show ?thesis
      by (rule exI [of _ merged_df], rule exI [of _ scraped_df], rule exI [of _ final_df])
        (intro conjI o s(2) m(2) m(3) n k3)
  qed
  ultimately show ?thesis using df(1) by simp
qed

theorem composite_keys_unique_witness:
  "transform_data plain None (Some three_sales) None = Inr three_sales_outcome \<and>
   wf three_sales \<and>
   nrows three_sales = 3 \<and> nrows (returned three_sales_outcome) = 3 \<and>
   row_key (returned three_sales_outcome) 0 \<noteq> row_key (returned three_sales_outcome) 1 \<and>
   row_key (returned three_sales_outcome) 0 \<noteq> row_key (returned three_sales_outcome) 2 \<and>
   row_key (returned three_sales_outcome) 1 \<noteq> row_key (returned three_sales_outcome) 2 \<and>
   nrows (returned three_sales_outcome) \<le> nrows three_sales"
proof -
  have e: "transform_data plain None (Some three_sales) None = Inr three_sales_outcome"
    by code_simp
  have w: "wf three_sales" by code_simp
  have w': "\<forall>df. Some three_sales = Some df \<longrightarrow> wf df" using w by simp
  have n: "nrows three_sales = 3" "nrows (returned three_sales_outcome) = 3"
    by code_simp+
  note c = composite_keys_unique [OF e w']
  from c have k: "\<forall>i j. i < j \<and> j < nrows (returned three_sales_outcome) \<longrightarrow>
      row_key (returned three_sales_outcome) i \<noteq> row_key (returned three_sales_outcome) j"
    by (rule conjunct1)
  have k01: "row_key (returned three_sales_outcome) 0 \<noteq> row_key (returned three_sales_outcome) 1"
    using k [rule_format, of 0 1] n(2) by simp
  have k02: "row_key (returned three_sales_outcome) 0 \<noteq> row_key (returned three_sales_outcome) 2"
    using k [rule_format, of 0 2] n(2) by simp
  have k12: "row_key (returned three_sales_outcome) 1 \<noteq> row_key (returned three_sales_outcome) 2"
    using k [rule_format, of 1 2] n(2) by simp
  from c have "nrows (returned three_sales_outcome) \<le>
      (case Some three_sales of None \<Rightarrow> 0 | Some df \<Rightarrow> nrows df)"
    by (rule conjunct2 [THEN conjunct1])
  then have b: "nrows (returned three_sales_outcome) \<le> nrows three_sales" by simp
  show ?thesis by (intro conjI e w n k01 k02 k12 b)
qed

text \<open>
  The claim as it was stated fails on scenario A: the two rows of the input have keys
  that differ in the amount, the mean fills the missing amount and makes them equal, and
  one row of two is returned.
\<close>

theorem composite_keys_unique_counterexample:
  "row_key scenario_A 0 = [Some (Num 1), Some (Str ''2023-01-01''), Some NA] \<and>
   row_key scenario_A 1 = [Some (Num 1), Some (Str ''2023-01-01''), Some (Num 10)] \<and>
   nrows scenario_A = 2 \<and>
   transform_data plain None (Some scenario_A) None =
     Inr \<lparr>returned =
            \<lparr>index = [0],
             columns =
               [(''product_id'', [Num 1]),
                (''sale_date'', [Time 1672531200000000000]),
                (''sale_amount'', [Num 10]),
                (''sale_month'', [Num 1]),
                (''sale_day_name'', [Str ''Sunday''])]\<rparr>,
          weather_after = None,
          sales_after =
            Some \<lparr>index = [0, 1],
                  columns =
                    [(''product_id'', [Num 1, Num 1]),
                     (''sale_date'', [Time 1672531200000000000, Time 1672531200000000000]),
                     (''sale_amount'', [Num 10, Num 10]),
                     (''sale_month'', [Num 1, Num 1]),
                     (''sale_day_name'', [Str ''Sunday'', Str ''Sunday''])]\<rparr>,
          listings_after = None\<rparr>"
  by code_simp

end
